theory Spec2Isabelle
  imports Main "HOL-Library.Multiset"
begin

section \<open>Errors\<close>

text \<open>
  The \<^verbatim>\<open>derrors\<close> package classifies an error by a type, a message and a list of
  parameters; \<^verbatim>\<open>WithParams\<close> appends to the parameters. Only the error types that the
  modelled code constructs, plus the generic and internal ones, are listed.
\<close>

datatype ErrorType =
    GenericError
  | InternalError
  | InvalidArgument
  | NotFound
  | FailedPrecondition
  | PermissionDenied

record DError =
  errType :: ErrorType
  message :: string
  parameters :: "string list"

definition NewFailedPreconditionError :: "string \<Rightarrow> DError" where
  "NewFailedPreconditionError msg = \<lparr>errType = FailedPrecondition, message = msg, parameters = []\<rparr>"

definition NewInvalidArgumentError :: "string \<Rightarrow> DError" where
  "NewInvalidArgumentError msg = \<lparr>errType = InvalidArgument, message = msg, parameters = []\<rparr>"

definition NewNotFoundError :: "string \<Rightarrow> DError" where
  "NewNotFoundError msg = \<lparr>errType = NotFound, message = msg, parameters = []\<rparr>"

definition WithParams :: "DError \<Rightarrow> string list \<Rightarrow> DError" where
  "WithParams e ps = e\<lparr>parameters := parameters e @ ps\<rparr>"

text \<open>
  A Go \<^verbatim>\<open>error\<close> value returned by the manager is either a \<^verbatim>\<open>derrors.Error\<close> handed
  back as it is, a \<^verbatim>\<open>derrors.Error\<close> converted by \<^verbatim>\<open>conversions.ToGRPCError\<close>, or the
  opaque error of a remote call (a client or the queue producer). \<open>Panic\<close> stands for
  a run-time panic (a nil pointer dereference), which returns nothing to the caller.
\<close>

datatype error =
    Derror DError
  | ToGRPCError DError
  | RemoteError string
  | Panic string

fun errorType :: "error \<Rightarrow> ErrorType option" where
  "errorType (Derror d) = Some (errType d)"
| "errorType (ToGRPCError d) = Some (errType d)"
| "errorType (RemoteError s) = None"
| "errorType (Panic s) = None"

definition RequiredParamNotFilled :: string where
  "RequiredParamNotFilled = ''Required parameter not filled''"

definition RequiredOutboundNotFilled :: string where
  "RequiredOutboundNotFilled = ''Required outbound not filled''"

section \<open>Data model\<close>

text \<open>
  The protobuf messages, with the fields that the modelled functions read or write and
  those that the fixtures of \<^verbatim>\<open>test_utils.go\<close> set (the target group name of a rule,
  the deployment specs of a group). Their declarations are generated code of another
  repository. Numeric fields are only copied, so they are unbounded integers; an enum
  that is only copied is its number. A pointer
  that may be nil is an \<open>option\<close>; a slice of pointers is a list of options; a nil slice
  and an empty slice are the same list. A map and a slice of strings (or bytes) are
  reference types in Go: assigning one shares the underlying storage, so such a field
  holds a reference into a heap, \<open>None\<close> for nil.
\<close>

type_synonym ref = "nat option"

datatype cell =
    MapCell "(string \<times> string) list"
  | SliceCell "string list"

type_synonym heap = "nat \<Rightarrow> cell option"

record Storage =
  sto_Size :: int
  sto_MountPath :: string
  sto_Type :: nat

record Endpoint =
  ep_Type :: nat
  ep_Path :: string

record Port =
  port_Name :: string
  port_InternalPort :: int
  port_ExposedPort :: int
  port_Endpoints :: "Endpoint option list"

record ConfigFile =
  cf_OrganizationId :: string
  cf_AppDescriptorId :: string
  cf_ConfigFileId :: string
  cf_Name :: string
  cf_Content :: ref
  cf_MountPath :: string

record ImageCredentials =
  cred_Username :: string
  cred_Password :: string
  cred_Email :: string
  cred_DockerRepository :: string

record DeploySpecs =
  ds_Cpu :: int
  ds_Memory :: int
  ds_Replicas :: int

record Service =
  svc_OrganizationId :: string
  svc_AppDescriptorId :: string
  svc_ServiceGroupId :: string
  svc_ServiceId :: string
  svc_Name :: string
  svc_Type :: nat
  svc_Image :: string
  svc_Credentials :: "ImageCredentials option"
  svc_Specs :: "DeploySpecs option"
  svc_Storage :: "Storage option list"
  svc_ExposedPorts :: "Port option list"
  svc_EnvironmentVariables :: ref
  svc_Configs :: "ConfigFile option list"
  svc_Labels :: ref
  svc_DeployAfter :: ref
  svc_RunArguments :: ref

record ServiceGroupDeploymentSpecs =
  sgs_Replicas :: int
  sgs_MultiClusterReplica :: bool

record ServiceGroup =
  group_OrganizationId :: string
  group_AppDescriptorId :: string
  group_ServiceGroupId :: string
  group_Name :: string
  group_Services :: "Service option list"
  group_Policy :: nat
  group_Specs :: "ServiceGroupDeploymentSpecs option"
  group_Labels :: ref

record SecurityRule =
  rule_OrganizationId :: string
  rule_AppDescriptorId :: string
  rule_RuleId :: string
  rule_Name :: string
  rule_TargetServiceGroupName :: string
  rule_TargetServiceName :: string
  rule_TargetPort :: int
  rule_Access :: nat
  rule_AuthServiceGroupName :: string
  rule_AuthServices :: ref
  rule_DeviceGroupIds :: ref
  rule_DeviceGroupNames :: ref
  rule_OutboundNetInterface :: string

datatype ParamDataType =
    ParamDataType_BOOLEAN
  | ParamDataType_INTEGER
  | ParamDataType_FLOAT
  | ParamDataType_ENUM
  | ParamDataType_STRING
  | ParamDataType_PASSWORD
  | ParamDataType_unrecognized

record AppParameter =
  param_Name :: string
  param_Type :: ParamDataType
  param_Path :: string
  param_Required :: bool
  param_EnumValues :: "string list"

record InstanceParameter =
  ip_ParameterName :: string
  ip_Value :: string

record InboundNetworkInterface =
  inbound_Name :: string

record OutboundNetworkInterface =
  outbound_Name :: string
  outbound_Required :: bool

record AppDescriptor =
  desc_OrganizationId :: string
  desc_AppDescriptorId :: string
  desc_Name :: string
  desc_ConfigurationOptions :: ref
  desc_EnvironmentVariables :: ref
  desc_Labels :: ref
  desc_Rules :: "SecurityRule option list"
  desc_Groups :: "ServiceGroup option list"
  desc_Parameters :: "AppParameter list"
  desc_OutboundNetInterfaces :: "OutboundNetworkInterface list"

record ParametrizedDescriptor =
  pd_OrganizationId :: string
  pd_AppDescriptorId :: string
  pd_AppInstanceId :: string
  pd_Name :: string
  pd_ConfigurationOptions :: ref
  pd_EnvironmentVariables :: ref
  pd_Labels :: ref
  pd_Rules :: "SecurityRule option list"
  pd_Groups :: "ServiceGroup option list"

record AppInstance =
  inst_OrganizationId :: string
  inst_AppDescriptorId :: string
  inst_AppInstanceId :: string
  inst_Name :: string
  inst_ConfigurationOptions :: ref
  inst_EnvironmentVariables :: ref
  inst_Labels :: ref
  inst_Rules :: "SecurityRule option list"
  inst_InboundNetInterfaces :: "InboundNetworkInterface list"
  inst_OutboundNetInterfaces :: "OutboundNetworkInterface list"

section \<open>Required parameters\<close>

text \<open>
  \<^verbatim>\<open>checkAllRequiredParametersAreFilled\<close>: for each required descriptor parameter, the inner
  loop looks for a deploy parameter of the same name and stops at the first one. The
  parameter list of the request is a pointer, \<open>None\<close> when nil.
\<close>

fun findDeployParam :: "InstanceParameter list \<Rightarrow> string \<Rightarrow> bool" where
  "findDeployParam [] n = False"
| "findDeployParam (deployParam # rest) n =
     (if ip_ParameterName deployParam = n then True else findDeployParam rest n)"

fun checkAllRequiredParametersAreFilled ::
  "AppParameter list \<Rightarrow> InstanceParameter list option \<Rightarrow> error option" where
  "checkAllRequiredParametersAreFilled [] params = None"
| "checkAllRequiredParametersAreFilled (p # ps) params =
     (if param_Required p then
        (let find = (case params of None \<Rightarrow> False | Some l \<Rightarrow> findDeployParam l (param_Name p))
         in if \<not> find then Some (Derror (NewFailedPreconditionError RequiredParamNotFilled))
            else checkAllRequiredParametersAreFilled ps params)
      else checkAllRequiredParametersAreFilled ps params)"

section \<open>Connection checker\<close>

record ConnectionRequest =
  cr_SourceOutboundName :: string
  cr_TargetInstanceId :: string
  cr_TargetInboundName :: string

record CheckInboundResponse =
  resp_InstanceId :: string
  resp_InboundName :: string
  resp_Result :: bool

text \<open>
  \<^verbatim>\<open>checkInbounds\<close>. The result channel is the list of the responses sent so far; a send
  appends (the channel is buffered with room for one response per goroutine, so a send
  never blocks). The inner loop over the inbound interfaces of the target instance has no
  \<^verbatim>\<open>break\<close>; the loop over the requested names sends the failure, clears
  \<^verbatim>\<open>globalResult\<close> and breaks at the first name that is not found.
\<close>

fun targetFoundLoop :: "InboundNetworkInterface list \<Rightarrow> string \<Rightarrow> bool \<Rightarrow> bool" where
  "targetFoundLoop [] inboundName targetFound = targetFound"
| "targetFoundLoop (inbound # rest) inboundName targetFound =
     targetFoundLoop rest inboundName
       (if inbound_Name inbound = inboundName then True else targetFound)"

fun inboundNamesLoop ::
  "CheckInboundResponse list \<Rightarrow> string \<Rightarrow> InboundNetworkInterface list \<Rightarrow> string list
     \<Rightarrow> CheckInboundResponse list \<times> bool" where
  "inboundNamesLoop respond instanceID inbounds [] = (respond, True)"
| "inboundNamesLoop respond instanceID inbounds (inboundName # rest) =
     (if \<not> targetFoundLoop inbounds inboundName False then
        (respond @ [\<lparr>resp_InstanceId = instanceID, resp_InboundName = inboundName,
                      resp_Result = False\<rparr>], False)
      else inboundNamesLoop respond instanceID inbounds rest)"

definition checkInbounds ::
  "(string \<Rightarrow> string \<Rightarrow> error + AppInstance) \<Rightarrow> CheckInboundResponse list \<Rightarrow> string \<Rightarrow> string
     \<Rightarrow> string list \<Rightarrow> CheckInboundResponse list" where
  "checkInbounds GetAppInstance respond organizationID instanceID inboundNames =
     (case GetAppInstance organizationID instanceID of
        Inl err \<Rightarrow>
          respond @ [\<lparr>resp_InstanceId = instanceID, resp_InboundName = [], resp_Result = False\<rparr>]
      | Inr targetInstance \<Rightarrow>
          (case inboundNamesLoop respond instanceID (inst_InboundNetInterfaces targetInstance)
                  inboundNames of
             (respond', globalResult) \<Rightarrow>
               if globalResult then
                 respond' @ [\<lparr>resp_InstanceId = instanceID, resp_InboundName = [],
                               resp_Result = True\<rparr>]
               else respond'))"

text \<open>
  \<^verbatim>\<open>checkConnections\<close>, step 1: the required outbounds, in the order of the descriptor.
  The loop over the connections has no \<^verbatim>\<open>break\<close>.
\<close>

fun outboundFoundLoop :: "ConnectionRequest list \<Rightarrow> string \<Rightarrow> bool \<Rightarrow> bool" where
  "outboundFoundLoop [] n found = found"
| "outboundFoundLoop (connection # rest) n found =
     outboundFoundLoop rest n (if cr_SourceOutboundName connection = n then True else found)"

fun checkRequiredOutbounds ::
  "OutboundNetworkInterface list \<Rightarrow> ConnectionRequest list \<Rightarrow> DError option" where
  "checkRequiredOutbounds [] connections = None"
| "checkRequiredOutbounds (outbound # rest) connections =
     (if outbound_Required outbound then
        (if \<not> outboundFoundLoop connections (outbound_Name outbound) False then
           Some (WithParams (NewFailedPreconditionError RequiredOutboundNotFilled)
                   [outbound_Name outbound])
         else checkRequiredOutbounds rest connections)
      else checkRequiredOutbounds rest connections)"

text \<open>
  The map from target instance id to the inbound names requested on it, as an association
  list with one entry per key, in the order the keys were first inserted.
\<close>

fun addInbound ::
  "(string \<times> string list) list \<Rightarrow> string \<Rightarrow> string \<Rightarrow> (string \<times> string list) list" where
  "addInbound [] k v = [(k, [v])]"
| "addInbound ((k', inbounds) # rest) k v =
     (if k' = k then (k', inbounds @ [v]) # rest else (k', inbounds) # addInbound rest k v)"

definition instanceList :: "ConnectionRequest list \<Rightarrow> (string \<times> string list) list" where
  "instanceList connections =
     foldl (\<lambda>m conn. addInbound m (cr_TargetInstanceId conn) (cr_TargetInboundName conn))
       [] connections"

text \<open>The loop over the closed channel: the first failed response decides the error.\<close>

fun resultLoop :: "CheckInboundResponse list \<Rightarrow> DError option" where
  "resultLoop [] = None"
| "resultLoop (result # rest) =
     (if resp_Result result = False then
        (if resp_InboundName result \<noteq> [] then
           Some (WithParams (NewFailedPreconditionError ''no inbound interface found'')
                   [resp_InstanceId result, resp_InboundName result])
         else
           Some (WithParams (NewFailedPreconditionError ''instance not found'')
                   [resp_InstanceId result]))
      else resultLoop rest)"

text \<open>
  One goroutine per entry of the map runs \<^verbatim>\<open>checkInbounds\<close>; the iteration order of a Go
  map and the scheduling of the goroutines are not determined. Each goroutine reads its
  own instance and sends as its last action, so the channel holds what running the
  goroutines one after the other in some order \<open>sched\<close> of the entries leaves there.
  \<open>sched\<close> is a parameter: the theorems hold for every permutation.
\<close>

definition runCheckInbounds ::
  "(string \<Rightarrow> string \<Rightarrow> error + AppInstance) \<Rightarrow> string \<Rightarrow> (string \<times> string list) list
     \<Rightarrow> CheckInboundResponse list" where
  "runCheckInbounds GetAppInstance organizationID entries =
     foldl (\<lambda>respond (instanceId, inboundList).
              checkInbounds GetAppInstance respond organizationID instanceId inboundList)
       [] entries"

definition checkConnections ::
  "((string \<times> string list) list \<Rightarrow> (string \<times> string list) list)
     \<Rightarrow> (string \<Rightarrow> string \<Rightarrow> error + AppInstance) \<Rightarrow> string \<Rightarrow> ConnectionRequest list
     \<Rightarrow> OutboundNetworkInterface list \<Rightarrow> DError option" where
  "checkConnections sched GetAppInstance organizationID connections outboundInterfaces =
     (case checkRequiredOutbounds outboundInterfaces connections of
        Some err \<Rightarrow> Some err
      | None \<Rightarrow>
          resultLoop (runCheckInbounds GetAppInstance organizationID
                        (sched (instanceList connections))))"

section \<open>Parametrization engine\<close>

text \<open>
  The copy functions of \<^verbatim>\<open>parameters.go\<close>. A field that the struct literal of the source
  does not set has Go's zero value in the copy: the empty string, or nil. Each loop
  appends the copy of every element to a fresh slice, which is \<open>map\<close>. A field of map or
  slice-of-string type is assigned as it is, so the copy holds the same reference.
\<close>

definition copySecurityRule :: "SecurityRule option \<Rightarrow> SecurityRule option" where
  "copySecurityRule rule =
     (case rule of
        None \<Rightarrow> None
      | Some r \<Rightarrow>
          Some \<lparr>rule_OrganizationId = rule_OrganizationId r,
                rule_AppDescriptorId = rule_AppDescriptorId r,
                rule_RuleId = rule_RuleId r,
                rule_Name = rule_Name r,
                rule_TargetServiceGroupName = [],
                rule_TargetServiceName = rule_TargetServiceName r,
                rule_TargetPort = rule_TargetPort r,
                rule_Access = rule_Access r,
                rule_AuthServiceGroupName = rule_AuthServiceGroupName r,
                rule_AuthServices = rule_AuthServices r,
                rule_DeviceGroupIds = rule_DeviceGroupIds r,
                rule_DeviceGroupNames = rule_DeviceGroupNames r,
                rule_OutboundNetInterface = []\<rparr>)"

definition copyStorage :: "Storage option \<Rightarrow> Storage option" where
  "copyStorage storage =
     (case storage of
        None \<Rightarrow> None
      | Some s \<Rightarrow>
          Some \<lparr>sto_Size = sto_Size s, sto_MountPath = sto_MountPath s, sto_Type = sto_Type s\<rparr>)"

definition copyImageCredential :: "ImageCredentials option \<Rightarrow> ImageCredentials option" where
  "copyImageCredential credentials =
     (case credentials of
        None \<Rightarrow> None
      | Some c \<Rightarrow>
          Some \<lparr>cred_Username = cred_Username c, cred_Password = cred_Password c,
                cred_Email = cred_Email c, cred_DockerRepository = cred_DockerRepository c\<rparr>)"

definition copyDeploySpec :: "DeploySpecs option \<Rightarrow> DeploySpecs option" where
  "copyDeploySpec specs =
     (case specs of
        None \<Rightarrow> None
      | Some s \<Rightarrow> Some \<lparr>ds_Cpu = ds_Cpu s, ds_Memory = ds_Memory s, ds_Replicas = ds_Replicas s\<rparr>)"

definition copyEndPoint :: "Endpoint option \<Rightarrow> Endpoint option" where
  "copyEndPoint endpoint =
     (case endpoint of
        None \<Rightarrow> None
      | Some e \<Rightarrow> Some \<lparr>ep_Type = ep_Type e, ep_Path = ep_Path e\<rparr>)"

definition copyExposedPort :: "Port option \<Rightarrow> Port option" where
  "copyExposedPort port =
     (case port of
        None \<Rightarrow> None
      | Some p \<Rightarrow>
          Some \<lparr>port_Name = port_Name p, port_InternalPort = port_InternalPort p,
                port_ExposedPort = port_ExposedPort p,
                port_Endpoints = map copyEndPoint (port_Endpoints p)\<rparr>)"

definition copyConfigFile :: "ConfigFile option \<Rightarrow> ConfigFile option" where
  "copyConfigFile configFile =
     (case configFile of
        None \<Rightarrow> None
      | Some f \<Rightarrow>
          Some \<lparr>cf_OrganizationId = cf_OrganizationId f,
                cf_AppDescriptorId = cf_AppDescriptorId f,
                cf_ConfigFileId = cf_ConfigFileId f,
                cf_Name = cf_Name f,
                cf_Content = cf_Content f,
                cf_MountPath = cf_MountPath f\<rparr>)"

definition copyService :: "Service option \<Rightarrow> Service option" where
  "copyService service =
     (case service of
        None \<Rightarrow> None
      | Some s \<Rightarrow>
          Some \<lparr>svc_OrganizationId = svc_OrganizationId s,
                svc_AppDescriptorId = svc_AppDescriptorId s,
                svc_ServiceGroupId = svc_ServiceGroupId s,
                svc_ServiceId = svc_ServiceId s,
                svc_Name = svc_Name s,
                svc_Type = svc_Type s,
                svc_Image = svc_Image s,
                svc_Credentials = copyImageCredential (svc_Credentials s),
                svc_Specs = copyDeploySpec (svc_Specs s),
                svc_Storage = map copyStorage (svc_Storage s),
                svc_ExposedPorts = map copyExposedPort (svc_ExposedPorts s),
                svc_EnvironmentVariables = svc_EnvironmentVariables s,
                svc_Configs = map copyConfigFile (svc_Configs s),
                svc_Labels = svc_Labels s,
                svc_DeployAfter = svc_DeployAfter s,
                svc_RunArguments = svc_RunArguments s\<rparr>)"

text \<open>
  \<^verbatim>\<open>copyServiceGroup\<close>: the line that would copy \<^verbatim>\<open>Specs\<close> is commented out in the source,
  so the copy has nil deployment specs.
\<close>

definition copyServiceGroup :: "ServiceGroup option \<Rightarrow> ServiceGroup option" where
  "copyServiceGroup grp =
     (case grp of
        None \<Rightarrow> None
      | Some g \<Rightarrow>
          Some \<lparr>group_OrganizationId = group_OrganizationId g,
                group_AppDescriptorId = group_AppDescriptorId g,
                group_ServiceGroupId = group_ServiceGroupId g,
                group_Name = group_Name g,
                group_Services = map copyService (group_Services g),
                group_Policy = group_Policy g,
                group_Specs = None,
                group_Labels = group_Labels g\<rparr>)"

text \<open>
  \<^verbatim>\<open>newParametrizedDescriptorFromDescriptor\<close>, for a descriptor that is not nil (the
  descriptor \<^verbatim>\<open>Deploy\<close> passes is the result of a successful \<^verbatim>\<open>GetAppDescriptor\<close>).
\<close>

definition newParametrizedDescriptorFromDescriptor :: "AppDescriptor \<Rightarrow> ParametrizedDescriptor" where
  "newParametrizedDescriptorFromDescriptor descriptor =
     \<lparr>pd_OrganizationId = desc_OrganizationId descriptor,
      pd_AppDescriptorId = desc_AppDescriptorId descriptor,
      pd_AppInstanceId = [],
      pd_Name = desc_Name descriptor,
      pd_ConfigurationOptions = desc_ConfigurationOptions descriptor,
      pd_EnvironmentVariables = desc_EnvironmentVariables descriptor,
      pd_Labels = desc_Labels descriptor,
      pd_Rules = map copySecurityRule (desc_Rules descriptor),
      pd_Groups = map copyServiceGroup (desc_Groups descriptor)\<rparr>"

text \<open>
  Reading and writing a Go map through a reference: reading a nil map or a missing key
  gives the empty string; writing to a nil map panics (\<open>None\<close>). A write is seen through
  every field that holds the same reference.
\<close>

definition mapIndex :: "heap \<Rightarrow> ref \<Rightarrow> string \<Rightarrow> string" where
  "mapIndex h r k =
     (case r of
        None \<Rightarrow> []
      | Some a \<Rightarrow>
          (case h a of
             Some (MapCell m) \<Rightarrow> (case map_of m k of None \<Rightarrow> [] | Some v \<Rightarrow> v)
           | Some (SliceCell xs) \<Rightarrow> []
           | None \<Rightarrow> []))"

definition mapAssign :: "heap \<Rightarrow> ref \<Rightarrow> string \<Rightarrow> string \<Rightarrow> heap option" where
  "mapAssign h r k v =
     (case r of
        None \<Rightarrow> None
      | Some a \<Rightarrow>
          (case h a of
             Some (MapCell m) \<Rightarrow> Some (h(a := Some (MapCell ((k, v) # m))))
           | Some (SliceCell xs) \<Rightarrow> None
           | None \<Rightarrow> None))"

text \<open>
  The library functions the engine calls are parameters of the model: \<^verbatim>\<open>strconv\<close>'s
  parsers, \<^verbatim>\<open>conversions.ToDerror\<close>, \<^verbatim>\<open>json.Marshal\<close>, \<^verbatim>\<open>sjson.Set\<close> and
  \<^verbatim>\<open>json.Unmarshal\<close> (which fills the descriptor it is given). A Go error of a library is
  its message.
\<close>

typedecl float64

datatype pvalue =
    BoolValue bool
  | IntValue int
  | FloatValue float64
  | StringValue string
  | NilValue

record libs =
  ParseBool :: "string \<Rightarrow> string + bool"
  Atoi :: "string \<Rightarrow> string + int"
  ParseFloat :: "string \<Rightarrow> string + float64"
  ToDerror :: "string \<Rightarrow> DError"
  jsonMarshal :: "ParametrizedDescriptor \<Rightarrow> string + string"
  sjsonSet :: "string \<Rightarrow> string \<Rightarrow> pvalue \<Rightarrow> string + string"
  jsonUnmarshal :: "string \<Rightarrow> ParametrizedDescriptor \<Rightarrow> string + ParametrizedDescriptor"

fun findParameterLoop :: "AppParameter list \<Rightarrow> InstanceParameter \<Rightarrow> DError + AppParameter" where
  "findParameterLoop [] parameter =
     Inl (WithParams (NewNotFoundError ''Instance parameter not found in descriptor definition'')
            [ip_ParameterName parameter])"
| "findParameterLoop (param # rest) parameter =
     (if param_Name param = ip_ParameterName parameter then Inr param
      else findParameterLoop rest parameter)"

definition findParameterInDescriptor ::
  "AppDescriptor \<Rightarrow> InstanceParameter \<Rightarrow> DError + AppParameter" where
  "findParameterInDescriptor descriptor parameter =
     (if desc_Parameters descriptor = [] then
        Inl (NewInvalidArgumentError
               ''Instance parameter not found. Descriptor has no parameters'')
      else findParameterLoop (desc_Parameters descriptor) parameter)"

text \<open>
  \<^verbatim>\<open>applyParameter\<close>: the \<^verbatim>\<open>gjson.Get\<close> of the old value has no effect; \<^verbatim>\<open>sjson.Set\<close>
  writes the value at the path of the definition.
\<close>

definition applyParameter :: "libs \<Rightarrow> string \<Rightarrow> AppParameter \<Rightarrow> pvalue \<Rightarrow> DError + string" where
  "applyParameter L jsonParamDescriptor paramDefinition v =
     (case sjsonSet L jsonParamDescriptor (param_Path paramDefinition) v of
        Inl err \<Rightarrow> Inl (ToDerror L err)
      | Inr json \<Rightarrow> Inr json)"

fun enumFindLoop :: "string list \<Rightarrow> string \<Rightarrow> bool" where
  "enumFindLoop [] v = False"
| "enumFindLoop (paramVal # rest) v = (if paramVal = v then True else enumFindLoop rest v)"

definition validateInstanceParameter ::
  "libs \<Rightarrow> AppParameter \<Rightarrow> InstanceParameter \<Rightarrow> DError + pvalue" where
  "validateInstanceParameter L paramDefinition parameter =
     (case param_Type paramDefinition of
        ParamDataType_BOOLEAN \<Rightarrow>
          (case ParseBool L (ip_Value parameter) of
             Inl err \<Rightarrow> Inl (ToDerror L err)
           | Inr b \<Rightarrow> Inr (BoolValue b))
      | ParamDataType_INTEGER \<Rightarrow>
          (case Atoi L (ip_Value parameter) of
             Inl err \<Rightarrow> Inl (ToDerror L err)
           | Inr n \<Rightarrow> Inr (IntValue n))
      | ParamDataType_FLOAT \<Rightarrow>
          (case ParseFloat L (ip_Value parameter) of
             Inl err \<Rightarrow> Inl (ToDerror L err)
           | Inr x \<Rightarrow> Inr (FloatValue x))
      | ParamDataType_ENUM \<Rightarrow>
          (if \<not> enumFindLoop (param_EnumValues paramDefinition) (ip_Value parameter) then
             Inl (WithParams
                    (WithParams (NewInvalidArgumentError ''Invalid parameter value'')
                       [''parameter'', ip_ParameterName parameter])
                    [''value'', ip_Value parameter])
           else Inr (StringValue (ip_Value parameter)))
      | ParamDataType_STRING \<Rightarrow> Inr (StringValue (ip_Value parameter))
      | ParamDataType_PASSWORD \<Rightarrow> Inr (StringValue (ip_Value parameter))
      | ParamDataType_unrecognized \<Rightarrow> Inr NilValue)"

text \<open>The loop over the instance parameters: the first failure ends it.\<close>

fun parametersLoop ::
  "libs \<Rightarrow> AppDescriptor \<Rightarrow> string \<Rightarrow> InstanceParameter list \<Rightarrow> DError + string" where
  "parametersLoop L descriptor jsonDescriptor [] = Inr jsonDescriptor"
| "parametersLoop L descriptor jsonDescriptor (param # rest) =
     (case findParameterInDescriptor descriptor param of
        Inl err \<Rightarrow> Inl err
      | Inr paramDefinition \<Rightarrow>
          (case validateInstanceParameter L paramDefinition param of
             Inl err \<Rightarrow> Inl err
           | Inr v \<Rightarrow>
               (case applyParameter L jsonDescriptor paramDefinition v of
                  Inl err \<Rightarrow> Inl err
                | Inr json \<Rightarrow> parametersLoop L descriptor json rest)))"

text \<open>
  \<^verbatim>\<open>CreateParametrizedDescriptor\<close> returns a pair, as the Go function does: the descriptor
  (\<open>None\<close> for nil) and the error (\<open>None\<close> for nil). The version under \<^verbatim>\<open>src/\<close> takes the
  descriptor and the parameters; the parameter list is a pointer, \<open>None\<close> when nil.
\<close>

definition CreateParametrizedDescriptor ::
  "libs \<Rightarrow> AppDescriptor \<Rightarrow> InstanceParameter list option
     \<Rightarrow> ParametrizedDescriptor option \<times> DError option" where
  "CreateParametrizedDescriptor L descriptor params =
     (let parametrized = newParametrizedDescriptorFromDescriptor descriptor in
      case params of
        None \<Rightarrow> (Some parametrized, None)
      | Some [] \<Rightarrow> (Some parametrized, None)
      | Some (p # ps) \<Rightarrow>
          (case jsonMarshal L parametrized of
             Inl err \<Rightarrow> (None, Some (ToDerror L err))
           | Inr jsonDescriptor \<Rightarrow>
               (case parametersLoop L descriptor jsonDescriptor (p # ps) of
                  Inl err \<Rightarrow> (None, Some err)
                | Inr json \<Rightarrow>
                    (case jsonUnmarshal L json parametrized of
                       Inl err \<Rightarrow> (None, Some (ToDerror L err))
                     | Inr parametrized' \<Rightarrow> (Some parametrized', None)))))"

section \<open>Remote collaborators and the trace of calls\<close>

record AddAppInstanceRequest =
  air_OrganizationId :: string
  air_AppDescriptorId :: string
  air_Name :: string
  air_Parameters :: "InstanceParameter list option"

record ConnectionInstance =
  ci_OrganizationId :: string
  ci_SourceInstanceId :: string
  ci_SourceInstanceName :: string
  ci_TargetInstanceId :: string
  ci_InboundName :: string
  ci_OutboundName :: string

record RemoveConnectionRequest =
  rc_OrganizationId :: string
  rc_SourceInstanceId :: string
  rc_TargetInstanceId :: string
  rc_InboundName :: string
  rc_OutboundName :: string
  rc_UserConfirmation :: bool

record DeploymentRequest =
  dreq_RequestId :: string
  dreq_OrganizationId :: string
  dreq_AppInstanceId :: string
  dreq_Name :: string
  dreq_OutboundConnections :: "ConnectionInstance option list"

record DeployRequest =
  dr_OrganizationId :: string
  dr_AppDescriptorId :: string
  dr_Name :: string
  dr_Parameters :: "InstanceParameter list option"
  dr_OutboundConnections :: "ConnectionRequest list"

datatype ApplicationStatus = ApplicationStatus_QUEUED

record DeploymentResponse =
  dresp_RequestId :: string
  dresp_AppInstanceId :: string
  dresp_Status :: ApplicationStatus

record UndeployRequest =
  ur_OrganizationId :: string
  ur_AppInstanceId :: string
  ur_UserConfirmation :: bool

text \<open>
  Every call to a collaborator (the application client, the network client and manager,
  the queue producer) and every error-level log line is an event; a workflow takes the
  trace so far and returns it extended. The answer of a collaborator is given by an
  oracle that sees the trace before the call, so it may depend on everything done so
  far. Debug-level log lines are left out.
\<close>

datatype event =
    CallGetAppDescriptor string string
  | CallListAppInstances string
  | CallRemoveAppDescriptor string string
  | CallGetAppInstance string string
  | CallAddAppInstance AddAppInstanceRequest
  | CallAddParametrizedDescriptor ParametrizedDescriptor
  | CallUpdateAppInstance AppInstance
  | CallRemoveAppInstance string string
  | CallListInboundConnections string string
  | CallListOutboundConnections string string
  | CallRemoveConnection RemoveConnectionRequest
  | CallSendDeploy DeploymentRequest
  | CallSendUndeploy string string
  | LogError string

record services =
  GetAppDescriptor :: "event list \<Rightarrow> string \<Rightarrow> string \<Rightarrow> error + AppDescriptor"
  ListAppInstances :: "event list \<Rightarrow> string \<Rightarrow> error + AppInstance list"
  RemoveAppDescriptorCall :: "event list \<Rightarrow> string \<Rightarrow> string \<Rightarrow> error option"
  GetAppInstance :: "event list \<Rightarrow> string \<Rightarrow> string \<Rightarrow> error + AppInstance"
  AddAppInstance :: "event list \<Rightarrow> AddAppInstanceRequest \<Rightarrow> error + AppInstance"
  AddParametrizedDescriptor ::
    "event list \<Rightarrow> ParametrizedDescriptor \<Rightarrow> error + ParametrizedDescriptor"
  UpdateAppInstance :: "event list \<Rightarrow> AppInstance \<Rightarrow> error option"
  RemoveAppInstance :: "event list \<Rightarrow> string \<Rightarrow> string \<Rightarrow> error option"
  ListInboundConnections ::
    "event list \<Rightarrow> string \<Rightarrow> string \<Rightarrow> error + ConnectionInstance list option"
  ListOutboundConnections ::
    "event list \<Rightarrow> string \<Rightarrow> string \<Rightarrow> error + ConnectionInstance list option"
  RemoveConnection :: "event list \<Rightarrow> RemoveConnectionRequest \<Rightarrow> error option"
  SendDeploy :: "event list \<Rightarrow> DeploymentRequest \<Rightarrow> error option"
  SendUndeploy :: "event list \<Rightarrow> string \<Rightarrow> string \<Rightarrow> error option"
  randInt :: "event list \<Rightarrow> nat"

text \<open>What a trace holds: the connection removals and the commands sent to the queue.\<close>

fun removalsOf :: "event list \<Rightarrow> RemoveConnectionRequest list" where
  "removalsOf [] = []"
| "removalsOf (CallRemoveConnection r # rest) = r # removalsOf rest"
| "removalsOf (ev # rest) = removalsOf rest"

fun isQueueSend :: "event \<Rightarrow> bool" where
  "isQueueSend (CallSendDeploy r) = True"
| "isQueueSend (CallSendUndeploy org i) = True"
| "isQueueSend ev = False"

section \<open>Removing a descriptor\<close>

fun descriptorInUseLoop :: "AppInstance list \<Rightarrow> string \<Rightarrow> bool" where
  "descriptorInUseLoop [] appDescriptorId = False"
| "descriptorInUseLoop (inst # rest) appDescriptorId =
     (if inst_AppDescriptorId inst = appDescriptorId then True
      else descriptorInUseLoop rest appDescriptorId)"

definition RemoveAppDescriptor ::
  "services \<Rightarrow> event list \<Rightarrow> string \<Rightarrow> string \<Rightarrow> event list \<times> error option" where
  "RemoveAppDescriptor sv tr organizationId appDescriptorId =
     (let tr1 = tr @ [CallListAppInstances organizationId] in
      case ListAppInstances sv tr organizationId of
        Inl err \<Rightarrow> (tr1, Some err)
      | Inr instances \<Rightarrow>
          if descriptorInUseLoop instances appDescriptorId then
            (tr1, Some (Derror (NewFailedPreconditionError
               ''application instances must be removed before deleting the descriptor'')))
          else
            (tr1 @ [CallRemoveAppDescriptor organizationId appDescriptorId],
             RemoveAppDescriptorCall sv tr1 organizationId appDescriptorId))"

section \<open>Undeploy\<close>

record ExpandedAppInstance =
  exp_Instance :: AppInstance
  exp_InboundConnections :: "ConnectionInstance list"
  exp_OutboundConnections :: "ConnectionInstance list"

text \<open>
  Modelled from the spec: \<^verbatim>\<open>entities.ToAppInstance\<close> is not under \<^verbatim>\<open>src/\<close>. The spec's
  instance expansion enriches a raw instance with its resolved inbound and outbound
  connections, so the conversion keeps the instance and leaves both connection lists
  empty for \<^verbatim>\<open>getInstanceConnections\<close> to fill.
\<close>

definition ToAppInstance :: "AppInstance \<Rightarrow> ExpandedAppInstance" where
  "ToAppInstance inst =
     \<lparr>exp_Instance = inst, exp_InboundConnections = [], exp_OutboundConnections = []\<rparr>"

definition getInstanceConnections ::
  "services \<Rightarrow> event list \<Rightarrow> AppInstance \<Rightarrow> event list \<times> ExpandedAppInstance" where
  "getInstanceConnections sv tr inst =
     (let expandInstance = ToAppInstance inst;
          org = inst_OrganizationId inst;
          iid = inst_AppInstanceId inst;
          tr1 = tr @ [CallListInboundConnections org iid];
          (tr2, expandInstance2) =
            (case ListInboundConnections sv tr org iid of
               Inl err \<Rightarrow> (tr1 @ [LogError ''error getting inbound connections''], expandInstance)
             | Inr None \<Rightarrow> (tr1, expandInstance)
             | Inr (Some conns) \<Rightarrow> (tr1, expandInstance\<lparr>exp_InboundConnections := conns\<rparr>));
          tr3 = tr2 @ [CallListOutboundConnections org iid]
      in case ListOutboundConnections sv tr2 org iid of
           Inl err \<Rightarrow> (tr3 @ [LogError ''error getting outbound connections''], expandInstance2)
         | Inr None \<Rightarrow> (tr3, expandInstance2)
         | Inr (Some conns) \<Rightarrow> (tr3, expandInstance2\<lparr>exp_OutboundConnections := conns\<rparr>))"

text \<open>The manager's own \<^verbatim>\<open>GetAppInstance\<close>: the stored instance, expanded.\<close>

definition GetAppInstanceExpanded ::
  "services \<Rightarrow> event list \<Rightarrow> string \<Rightarrow> string \<Rightarrow> event list \<times> (error + ExpandedAppInstance)" where
  "GetAppInstanceExpanded sv tr org iid =
     (let tr1 = tr @ [CallGetAppInstance org iid] in
      case GetAppInstance sv tr org iid of
        Inl err \<Rightarrow> (tr1, Inl err)
      | Inr appInstance \<Rightarrow>
          (case getInstanceConnections sv tr1 appInstance of
             (tr2, expandInstance) \<Rightarrow> (tr2, Inr expandInstance)))"

definition removeRequest :: "ConnectionInstance \<Rightarrow> RemoveConnectionRequest" where
  "removeRequest conn =
     \<lparr>rc_OrganizationId = ci_OrganizationId conn,
      rc_SourceInstanceId = ci_SourceInstanceId conn,
      rc_TargetInstanceId = ci_TargetInstanceId conn,
      rc_InboundName = ci_InboundName conn,
      rc_OutboundName = ci_OutboundName conn,
      rc_UserConfirmation = True\<rparr>"

text \<open>
  The two removal loops of \<^verbatim>\<open>Undeploy\<close> differ in the log message only. A failed removal
  is logged and the loop goes on.
\<close>

fun removeConnectionsLoop ::
  "services \<Rightarrow> event list \<Rightarrow> ConnectionInstance list \<Rightarrow> string \<Rightarrow> event list" where
  "removeConnectionsLoop sv tr [] msg = tr"
| "removeConnectionsLoop sv tr (conn # rest) msg =
     (let tr1 = tr @ [CallRemoveConnection (removeRequest conn)] in
      case RemoveConnection sv tr (removeRequest conn) of
        Some rErr \<Rightarrow> removeConnectionsLoop sv (tr1 @ [LogError msg]) rest msg
      | None \<Rightarrow> removeConnectionsLoop sv tr1 rest msg)"

definition Undeploy ::
  "services \<Rightarrow> event list \<Rightarrow> UndeployRequest \<Rightarrow> event list \<times> error option" where
  "Undeploy sv tr undeployRequest =
     (case GetAppInstanceExpanded sv tr (ur_OrganizationId undeployRequest)
             (ur_AppInstanceId undeployRequest) of
        (tr1, Inl iErr) \<Rightarrow>
          (tr1 @ [LogError ''error when sending the undeploy request to the queue''], Some iErr)
      | (tr1, Inr inst) \<Rightarrow>
          if length (exp_InboundConnections inst) > 0 \<and> \<not> ur_UserConfirmation undeployRequest then
            (tr1, Some (ToGRPCError (NewFailedPreconditionError
               ''can not undeploy the instance, it has inbound connections. User confirmation required'')))
          else
            (let tr2 = removeConnectionsLoop sv tr1 (exp_InboundConnections inst)
                         ''Error removing inbound connection'';
                 tr3 = removeConnectionsLoop sv tr2 (exp_OutboundConnections inst)
                         ''Error removing outbound connection'';
                 tr4 = tr3 @ [CallSendUndeploy (ur_OrganizationId undeployRequest)
                                (ur_AppInstanceId undeployRequest)]
             in case SendUndeploy sv tr3 (ur_OrganizationId undeployRequest)
                       (ur_AppInstanceId undeployRequest) of
                  Some err \<Rightarrow>
                    (tr4 @ [LogError ''error when sending the undeploy request to the queue''],
                     Some err)
                | None \<Rightarrow> (tr4, None)))"

section \<open>Deploy\<close>

text \<open>\<^verbatim>\<open>fmt.Sprintf("%d", n)\<close> for a number that is not negative, as \<^verbatim>\<open>rand.Int()\<close> is.\<close>

fun digitsOf :: "nat \<Rightarrow> string" where
  "digitsOf n =
     (if n < 10 then [char_of (48 + n)]
      else digitsOf (n div 10) @ [char_of (48 + n mod 10)])"

declare digitsOf.simps [simp del]

text \<open>
  The loop over the rules of the created instance that links an outbound interface name
  to a service: it has no \<^verbatim>\<open>break\<close>, so the last matching rule decides. A nil rule is
  dereferenced, which panics (\<open>None\<close>).
\<close>

fun sourceInstanceNameLoop :: "SecurityRule option list \<Rightarrow> string \<Rightarrow> string \<Rightarrow> string option" where
  "sourceInstanceNameLoop [] outboundName sourceInstanceName = Some sourceInstanceName"
| "sourceInstanceNameLoop (None # rest) outboundName sourceInstanceName = None"
| "sourceInstanceNameLoop (Some rule # rest) outboundName sourceInstanceName =
     sourceInstanceNameLoop rest outboundName
       (if rule_OutboundNetInterface rule = outboundName then rule_TargetServiceName rule
        else sourceInstanceName)"

text \<open>
  The resolution loop. The slice is made with one nil entry per requested connection and
  filled by index; for a connection that is skipped the loop logs and continues, which
  leaves the nil entry of that index in place. The result is the slice and the log
  lines, or \<open>None\<close> for a panic.
\<close>

fun resolveConnections ::
  "string \<Rightarrow> SecurityRule option list \<Rightarrow> ConnectionRequest list
     \<Rightarrow> (ConnectionInstance option list \<times> event list) option" where
  "resolveConnections organizationId rules [] = Some ([], [])"
| "resolveConnections organizationId rules (connectionRequest # rest) =
     (case sourceInstanceNameLoop rules (cr_SourceOutboundName connectionRequest) [] of
        None \<Rightarrow> None
      | Some sourceInstanceName \<Rightarrow>
          (case resolveConnections organizationId rules rest of
             None \<Rightarrow> None
           | Some (connections, logs) \<Rightarrow>
               if sourceInstanceName = [] then
                 Some (None # connections,
                       LogError ''the connection request refers to an outbound interface name not linked to a service. Skipping.'' # logs)
               else
                 Some (Some \<lparr>ci_OrganizationId = organizationId,
                              ci_SourceInstanceId = [],
                              ci_SourceInstanceName = sourceInstanceName,
                              ci_TargetInstanceId = cr_TargetInstanceId connectionRequest,
                              ci_InboundName = cr_TargetInboundName connectionRequest,
                              ci_OutboundName = cr_SourceOutboundName connectionRequest\<rparr>
                         # connections,
                       logs)))"

text \<open>The compensation of both rollback paths: delete the instance, log a failure.\<close>

definition rollbackInstance ::
  "services \<Rightarrow> event list \<Rightarrow> string \<Rightarrow> string \<Rightarrow> event list" where
  "rollbackInstance sv tr organizationId appInstanceId =
     (let tr1 = tr @ [CallRemoveAppInstance organizationId appInstanceId] in
      case RemoveAppInstance sv tr organizationId appInstanceId of
        Some rollbackErr \<Rightarrow> tr1 @ [LogError ''error in rollback deleting the instance'']
      | None \<Rightarrow> tr1)"

text \<open>The last step: the deployment command goes to the queue of the conductor.\<close>

definition sendDeployCommand ::
  "services \<Rightarrow> event list \<Rightarrow> DeployRequest \<Rightarrow> AppInstance \<Rightarrow> ConnectionInstance option list
     \<Rightarrow> event list \<times> (error + DeploymentResponse)" where
  "sendDeployCommand sv tr deployRequest inst connections =
     (let request =
            \<lparr>dreq_RequestId = ''app-mngr-'' @ digitsOf (randInt sv tr),
             dreq_OrganizationId = dr_OrganizationId deployRequest,
             dreq_AppInstanceId = inst_AppInstanceId inst,
             dreq_Name = dr_Name deployRequest,
             dreq_OutboundConnections = connections\<rparr>;
          tr1 = tr @ [CallSendDeploy request]
      in case SendDeploy sv tr request of
           Some err \<Rightarrow>
             (tr1 @ [LogError ''error when sending deployment request to the queue''], Inl err)
         | None \<Rightarrow>
             (tr1,
              Inr \<lparr>dresp_RequestId = ''app-mngr-'' @ digitsOf (randInt sv tr1),
                   dresp_AppInstanceId = inst_AppInstanceId inst,
                   dresp_Status = ApplicationStatus_QUEUED\<rparr>))"

text \<open>
  The steps of \<^verbatim>\<open>Deploy\<close> after the instance has been created: persist the parametrized
  descriptor, update the instance when the descriptor has rules, send the command.
\<close>

definition persistAndSchedule ::
  "services \<Rightarrow> event list \<Rightarrow> DeployRequest \<Rightarrow> ParametrizedDescriptor \<Rightarrow> AppInstance
     \<Rightarrow> ConnectionInstance option list \<Rightarrow> event list \<times> (error + DeploymentResponse)" where
  "persistAndSchedule sv tr deployRequest parametrizedDesc inst connections =
     (let org = dr_OrganizationId deployRequest;
          iid = inst_AppInstanceId inst;
          tr1 = tr @ [CallAddParametrizedDescriptor parametrizedDesc]
      in case AddParametrizedDescriptor sv tr parametrizedDesc of
           Inl err \<Rightarrow>
             (rollbackInstance sv
                (tr1 @ [LogError ''error adding  parametrized descriptor. Delete instance''])
                org iid,
              Inl err)
         | Inr newDesc \<Rightarrow>
             if length (pd_Rules parametrizedDesc) > 0 then
               (let inst' = inst\<lparr>inst_Rules := pd_Rules newDesc,
                                 inst_ConfigurationOptions := pd_ConfigurationOptions newDesc,
                                 inst_EnvironmentVariables := pd_EnvironmentVariables newDesc,
                                 inst_Labels := pd_Labels newDesc\<rparr>;
                    tr2 = tr1 @ [CallUpdateAppInstance inst']
                in case UpdateAppInstance sv tr1 inst' of
                     Some err \<Rightarrow>
                       (rollbackInstance sv
                          (tr2 @ [LogError ''error updating instance. Delete instance''])
                          org iid,
                        Inl err)
                   | None \<Rightarrow> sendDeployCommand sv tr2 deployRequest inst' connections)
             else sendDeployCommand sv tr1 deployRequest inst connections)"

text \<open>
  \<^verbatim>\<open>Deploy\<close>. The lookups of the connection check answer from the state before the
  check; their calls enter the trace in the order \<open>sched\<close> of the check. The organization
  settings that the call of \<^verbatim>\<open>CreateParametrizedDescriptor\<close> passes are not a parameter
  of the function under \<^verbatim>\<open>src/\<close>.
\<close>

definition Deploy ::
  "libs \<Rightarrow> services \<Rightarrow> ((string \<times> string list) list \<Rightarrow> (string \<times> string list) list)
     \<Rightarrow> event list \<Rightarrow> DeployRequest \<Rightarrow> event list \<times> (error + DeploymentResponse)" where
  "Deploy L sv sched tr deployRequest =
     (let org = dr_OrganizationId deployRequest;
          tr1 = tr @ [CallGetAppDescriptor org (dr_AppDescriptorId deployRequest)]
      in case GetAppDescriptor sv tr org (dr_AppDescriptorId deployRequest) of
           Inl err \<Rightarrow> (tr1 @ [LogError ''error getting application descriptor''], Inl err)
         | Inr desc \<Rightarrow>
             (case checkAllRequiredParametersAreFilled (desc_Parameters desc)
                     (dr_Parameters deployRequest) of
                Some err \<Rightarrow> (tr1, Inl err)
              | None \<Rightarrow>
                  (let tr2 =
                         (if checkRequiredOutbounds (desc_OutboundNetInterfaces desc)
                               (dr_OutboundConnections deployRequest) = None
                          then tr1 @ map (\<lambda>(instanceId, inboundList). CallGetAppInstance org instanceId)
                                      (sched (instanceList (dr_OutboundConnections deployRequest)))
                          else tr1)
                   in case checkConnections sched (GetAppInstance sv tr1) org
                             (dr_OutboundConnections deployRequest)
                             (desc_OutboundNetInterfaces desc) of
                        Some dErr \<Rightarrow> (tr2, Inl (ToGRPCError dErr))
                      | None \<Rightarrow>
                          (case CreateParametrizedDescriptor L desc (dr_Parameters deployRequest) of
                             (parametrizedDesc, Some err) \<Rightarrow>
                               (tr2 @ [LogError ''error creating  parametrized descriptor''],
                                Inl (Derror err))
                           | (parametrizedDesc, None) \<Rightarrow>
                               (let addReq =
                                      \<lparr>air_OrganizationId = org,
                                       air_AppDescriptorId = dr_AppDescriptorId deployRequest,
                                       air_Name = dr_Name deployRequest,
                                       air_Parameters = dr_Parameters deployRequest\<rparr>;
                                    tr3 = tr2 @ [CallAddAppInstance addReq]
                                in case AddAppInstance sv tr2 addReq of
                                     Inl err \<Rightarrow>
                                       (tr3 @ [LogError ''error adding application instance''],
                                        Inl err)
                                   | Inr inst \<Rightarrow>
                                       (case resolveConnections (desc_OrganizationId desc)
                                               (inst_Rules inst)
                                               (dr_OutboundConnections deployRequest) of
                                          None \<Rightarrow> (tr3, Inl (Panic ''nil security rule''))
                                        | Some (connections, logs) \<Rightarrow>
                                            (case parametrizedDesc of
                                               None \<Rightarrow>
                                                 (tr3 @ logs,
                                                  Inl (Panic ''nil parametrized descriptor''))
                                             | Some pd \<Rightarrow>
                                                 persistAndSchedule sv (tr3 @ logs) deployRequest
                                                   (pd\<lparr>pd_AppInstanceId := inst_AppInstanceId inst\<rparr>)
                                                   inst connections)))))))"

section \<open>Test doubles\<close>

text \<open>
  Stand-ins for the collaborators, used where a property is evaluated on a concrete
  request. The descriptor follows \<^verbatim>\<open>CreateFullAppDescriptor\<close> of \<^verbatim>\<open>test_utils.go\<close>, cut
  down to its first rule and its first group (without the services): the rule names
  its target group, and the group has deployment specs with three replicas. The rule is
  also linked to an outbound interface, and the group has a label map at address 0.
\<close>

definition exampleRule :: SecurityRule where
  "exampleRule =
     \<lparr>rule_OrganizationId = ''org'', rule_AppDescriptorId = ''d1'', rule_RuleId = ''r1'',
      rule_Name = ''rule1'', rule_TargetServiceGroupName = ''g1'',
      rule_TargetServiceName = ''service1'', rule_TargetPort = 80, rule_Access = 1,
      rule_AuthServiceGroupName = ''g2'', rule_AuthServices = None,
      rule_DeviceGroupIds = None, rule_DeviceGroupNames = None,
      rule_OutboundNetInterface = ''out1''\<rparr>"

definition exampleGroup :: ServiceGroup where
  "exampleGroup =
     \<lparr>group_OrganizationId = ''org'', group_AppDescriptorId = ''d1'',
      group_ServiceGroupId = ''sg1'', group_Name = ''g1'', group_Services = [],
      group_Policy = 0,
      group_Specs = Some \<lparr>sgs_Replicas = 3, sgs_MultiClusterReplica = False\<rparr>,
      group_Labels = Some 0\<rparr>"

definition exampleDescriptor :: AppDescriptor where
  "exampleDescriptor =
     \<lparr>desc_OrganizationId = ''org'', desc_AppDescriptorId = ''d1'',
      desc_Name = ''descriptor-test'', desc_ConfigurationOptions = None,
      desc_EnvironmentVariables = None, desc_Labels = None,
      desc_Rules = [Some exampleRule], desc_Groups = [Some exampleGroup],
      desc_Parameters = [], desc_OutboundNetInterfaces = []\<rparr>"

definition exampleHeap :: heap where
  "exampleHeap = (\<lambda>a. if a = 0 then Some (MapCell [(''tier'', ''db'')]) else None)"

definition exampleInstance :: AppInstance where
  "exampleInstance =
     \<lparr>inst_OrganizationId = ''org'', inst_AppDescriptorId = ''d1'',
      inst_AppInstanceId = ''inst-1'', inst_Name = ''app'',
      inst_ConfigurationOptions = None, inst_EnvironmentVariables = None,
      inst_Labels = None, inst_Rules = [Some exampleRule],
      inst_InboundNetInterfaces = [\<lparr>inbound_Name = ''in1''\<rparr>],
      inst_OutboundNetInterfaces = [\<lparr>outbound_Name = ''out1'', outbound_Required = False\<rparr>]\<rparr>"

definition exampleConnection :: ConnectionInstance where
  "exampleConnection =
     \<lparr>ci_OrganizationId = ''org'', ci_SourceInstanceId = ''inst-0'',
      ci_SourceInstanceName = ''service0'', ci_TargetInstanceId = ''inst-1'',
      ci_InboundName = ''in1'', ci_OutboundName = ''out0''\<rparr>"

definition stubLibs :: libs where
  "stubLibs =
     \<lparr>ParseBool = (\<lambda>s. Inl ''invalid syntax''),
      Atoi = (\<lambda>s. Inl ''invalid syntax''),
      ParseFloat = (\<lambda>s. Inl ''invalid syntax''),
      ToDerror = (\<lambda>s. \<lparr>errType = GenericError, message = s, parameters = []\<rparr>),
      jsonMarshal = (\<lambda>p. Inr ''{}''),
      sjsonSet = (\<lambda>j p v. Inr j),
      jsonUnmarshal = (\<lambda>j p. Inr p)\<rparr>"

text \<open>
  Every call of the stub succeeds: one descriptor, one instance, one inbound and no
  outbound connection; the random number is the length of the trace.
\<close>

definition stubServices :: services where
  "stubServices =
     \<lparr>GetAppDescriptor = (\<lambda>tr org did. Inr exampleDescriptor),
      ListAppInstances = (\<lambda>tr org. Inr [exampleInstance]),
      RemoveAppDescriptorCall = (\<lambda>tr org did. None),
      GetAppInstance = (\<lambda>tr org iid. Inr exampleInstance),
      AddAppInstance = (\<lambda>tr r. Inr exampleInstance),
      AddParametrizedDescriptor = (\<lambda>tr pd. Inr pd),
      UpdateAppInstance = (\<lambda>tr inst. None),
      RemoveAppInstance = (\<lambda>tr org iid. None),
      ListInboundConnections = (\<lambda>tr org iid. Inr (Some [exampleConnection])),
      ListOutboundConnections = (\<lambda>tr org iid. Inr None),
      RemoveConnection = (\<lambda>tr r. None),
      SendDeploy = (\<lambda>tr r. None),
      SendUndeploy = (\<lambda>tr org iid. None),
      randInt = (\<lambda>tr. length tr)\<rparr>"

section \<open>Properties of the connection checker\<close>

lemma findDeployParam_iff: "findDeployParam l n \<longleftrightarrow> n \<in> ip_ParameterName ` set l"
  by (induction l) auto

lemma targetFoundLoop_iff:
  "targetFoundLoop inbounds n b \<longleftrightarrow> b \<or> n \<in> inbound_Name ` set inbounds"
  by (induction inbounds arbitrary: b) auto

lemma outboundFoundLoop_iff:
  "outboundFoundLoop conns n b \<longleftrightarrow> b \<or> n \<in> cr_SourceOutboundName ` set conns"
  by (induction conns arbitrary: b) auto

lemma inboundNamesLoop_find:
  "inboundNamesLoop respond i inbounds names =
     (case find (\<lambda>n. n \<notin> inbound_Name ` set inbounds) names of
        None \<Rightarrow> (respond, True)
      | Some n \<Rightarrow> (respond @ [\<lparr>resp_InstanceId = i, resp_InboundName = n, resp_Result = False\<rparr>], False))"
  by (induction names) (auto simp: targetFoundLoop_iff)

lemma checkInbounds_response:
  "checkInbounds get respond org i names =
     respond @
       [case get org i of
          Inl e \<Rightarrow> \<lparr>resp_InstanceId = i, resp_InboundName = [], resp_Result = False\<rparr>
        | Inr inst \<Rightarrow>
            (case find (\<lambda>n. n \<notin> inbound_Name ` set (inst_InboundNetInterfaces inst)) names of
               None \<Rightarrow> \<lparr>resp_InstanceId = i, resp_InboundName = [], resp_Result = True\<rparr>
             | Some n \<Rightarrow> \<lparr>resp_InstanceId = i, resp_InboundName = n, resp_Result = False\<rparr>)]"
  by (simp add: checkInbounds_def inboundNamesLoop_find split: sum.splits option.splits)

lemma checkInbounds_append:
  "checkInbounds get respond org i names = respond @ checkInbounds get [] org i names"
  by (simp add: checkInbounds_response)

lemma runCheckInbounds_concat_aux:
  "foldl (\<lambda>respond (instanceId, inboundList).
              checkInbounds get respond org instanceId inboundList) acc entries
   = acc @ concat (map (\<lambda>(i, names). checkInbounds get [] org i names) entries)"
proof (induction entries arbitrary: acc)
  case Nil
  then show ?case by simp
next
  case (Cons a entries)
  obtain i names where a: "a = (i, names)" by (cases a)
  show ?case
    unfolding a by (simp add: Cons.IH) (subst checkInbounds_append, simp)
qed

lemma runCheckInbounds_concat:
  "runCheckInbounds get org entries =
     concat (map (\<lambda>(i, names). checkInbounds get [] org i names) entries)"
  by (simp add: runCheckInbounds_def runCheckInbounds_concat_aux)

lemma resultLoop_None: "resultLoop rs = None \<longleftrightarrow> (\<forall>r \<in> set rs. resp_Result r)"
  by (induction rs) auto

lemma resultLoop_Some:
  "resultLoop rs = Some e \<Longrightarrow>
     \<exists>r \<in> set rs. \<not> resp_Result r \<and>
       e = (if resp_InboundName r \<noteq> [] then
              WithParams (NewFailedPreconditionError ''no inbound interface found'')
                [resp_InstanceId r, resp_InboundName r]
            else WithParams (NewFailedPreconditionError ''instance not found'') [resp_InstanceId r])"
  by (induction rs) (auto split: if_splits)

lemma checkRequiredOutbounds_find:
  "checkRequiredOutbounds outs conns =
     (case find (\<lambda>ob. outbound_Required ob \<and> outbound_Name ob \<notin> cr_SourceOutboundName ` set conns) outs of
        None \<Rightarrow> None
      | Some ob \<Rightarrow> Some (WithParams (NewFailedPreconditionError RequiredOutboundNotFilled) [outbound_Name ob]))"
  by (induction outs) (auto simp: outboundFoundLoop_iff)

lemma addInbound_keys:
  "map fst (addInbound m k v) = (if k \<in> fst ` set m then map fst m else map fst m @ [k])"
  by (induction m k v rule: addInbound.induct) auto

lemma addInbound_map_of:
  "map_of (addInbound m k v) =
     (map_of m)(k \<mapsto> (case map_of m k of None \<Rightarrow> [v] | Some vs \<Rightarrow> vs @ [v]))"
  by (induction m k v rule: addInbound.induct) (auto simp: fun_eq_iff)

lemma addInbound_distinct: "distinct (map fst m) \<Longrightarrow> distinct (map fst (addInbound m k v))"
  by (simp add: addInbound_keys)

lemma foldl_addInbound_keys:
  "fst ` set (foldl (\<lambda>m conn. addInbound m (cr_TargetInstanceId conn) (cr_TargetInboundName conn)) m conns)
     = fst ` set m \<union> cr_TargetInstanceId ` set conns"
proof (induction conns arbitrary: m)
  case Nil
  then show ?case by simp
next
  case (Cons c conns)
  have "fst ` set (addInbound m (cr_TargetInstanceId c) (cr_TargetInboundName c))
          = insert (cr_TargetInstanceId c) (fst ` set m)"
    using addInbound_keys [of m "cr_TargetInstanceId c" "cr_TargetInboundName c"]
    by (metis (no_types, lifting) insert_absorb list.set_map set_append list.simps(15) Un_insert_right
        sup_bot.right_neutral empty_set)
  then show ?case by (simp add: Cons.IH)
qed

lemma foldl_addInbound_distinct:
  "distinct (map fst m) \<Longrightarrow>
   distinct (map fst (foldl (\<lambda>m conn. addInbound m (cr_TargetInstanceId conn) (cr_TargetInboundName conn)) m conns))"
  by (induction conns arbitrary: m) (simp_all add: addInbound_distinct)

lemma foldl_addInbound_map_of:
  "map_of (foldl (\<lambda>m conn. addInbound m (cr_TargetInstanceId conn) (cr_TargetInboundName conn)) m conns) i
     = (if i \<in> fst ` set m \<union> cr_TargetInstanceId ` set conns then
          Some ((case map_of m i of None \<Rightarrow> [] | Some vs \<Rightarrow> vs)
                @ map cr_TargetInboundName (filter (\<lambda>c. cr_TargetInstanceId c = i) conns))
        else None)"
proof (induction conns arbitrary: m)
  case Nil
  then show ?case
    by (auto simp: map_of_eq_None_iff split: option.splits dest: weak_map_of_SomeI)
next
  case (Cons c conns)
  have keys: "fst ` set (addInbound m (cr_TargetInstanceId c) (cr_TargetInboundName c))
          = insert (cr_TargetInstanceId c) (fst ` set m)"
    using foldl_addInbound_keys [of m "[c]"] by simp
  have dom: "map_of m j = Some vs \<Longrightarrow> j \<in> fst ` set m" for vs j
    by (metis domI dom_map_of_conv_image_fst)
  show ?case
    by (auto simp: Cons.IH keys addInbound_map_of map_of_eq_None_iff dest: dom split: option.splits)
qed

lemma instanceList_distinct: "distinct (map fst (instanceList conns))"
  unfolding instanceList_def by (rule foldl_addInbound_distinct) simp


lemma instanceList_entry:
  "(i, names) \<in> set (instanceList conns) \<longleftrightarrow>
     i \<in> cr_TargetInstanceId ` set conns \<and>
     names = map cr_TargetInboundName (filter (\<lambda>c. cr_TargetInstanceId c = i) conns)"
proof -
  have "(i, names) \<in> set (instanceList conns) \<longleftrightarrow> map_of (instanceList conns) i = Some names"
    using instanceList_distinct [of conns] by simp
  also have "\<dots> \<longleftrightarrow> i \<in> cr_TargetInstanceId ` set conns \<and>
     names = map cr_TargetInboundName (filter (\<lambda>c. cr_TargetInstanceId c = i) conns)"
    unfolding instanceList_def by (auto simp: foldl_addInbound_map_of)
  finally show ?thesis .
qed


lemma runCheckInbounds_set:
  assumes "mset (sched (instanceList conns)) = mset (instanceList conns)"
  shows "r \<in> set (runCheckInbounds get org (sched (instanceList conns))) \<longleftrightarrow>
           (\<exists>i \<in> cr_TargetInstanceId ` set conns.
              checkInbounds get [] org i
                (map cr_TargetInboundName (filter (\<lambda>c. cr_TargetInstanceId c = i) conns)) = [r])"
proof -
  have s: "set (sched (instanceList conns)) = set (instanceList conns)"
    using assms by (metis set_mset_mset)
  have one: "\<exists>r'. checkInbounds get [] org i names = [r']" for i names
    by (simp add: checkInbounds_response)
  have "r \<in> set (runCheckInbounds get org (sched (instanceList conns))) \<longleftrightarrow>
          (\<exists>(i, names) \<in> set (instanceList conns). r \<in> set (checkInbounds get [] org i names))"
    by (auto simp: runCheckInbounds_concat s)
  also have "\<dots> \<longleftrightarrow> (\<exists>(i, names) \<in> set (instanceList conns). checkInbounds get [] org i names = [r])"
  proof -
    have "r \<in> set (checkInbounds get [] org i names) \<longleftrightarrow> checkInbounds get [] org i names = [r]"
      for i names
      using one [of i names] by auto
    then show ?thesis by simp
  qed
  also have "\<dots> \<longleftrightarrow> (\<exists>i \<in> cr_TargetInstanceId ` set conns.
              checkInbounds get [] org i
                (map cr_TargetInboundName (filter (\<lambda>c. cr_TargetInstanceId c = i) conns)) = [r])"
    by (auto simp: instanceList_entry)
  finally show ?thesis .
qed

lemma requested_names_all_found:
  "find (\<lambda>n. n \<notin> S) (map cr_TargetInboundName (filter (\<lambda>c. cr_TargetInstanceId c = i) conns)) = None
     \<longleftrightarrow> (\<forall>c \<in> set conns. cr_TargetInstanceId c = i \<longrightarrow> cr_TargetInboundName c \<in> S)"
  by (auto simp: find_None_iff)

lemma requested_names_first_missing:
  "find (\<lambda>n. n \<notin> S) (map cr_TargetInboundName (filter (\<lambda>c. cr_TargetInstanceId c = i) conns)) = Some n
     \<Longrightarrow> \<exists>c \<in> set conns. cr_TargetInstanceId c = i \<and> cr_TargetInboundName c = n \<and> n \<notin> S"
proof -
  assume "find (\<lambda>n. n \<notin> S) (map cr_TargetInboundName (filter (\<lambda>c. cr_TargetInstanceId c = i) conns)) = Some n"
  then have "n \<in> set (map cr_TargetInboundName (filter (\<lambda>c. cr_TargetInstanceId c = i) conns)) \<and> n \<notin> S"
    unfolding find_Some_iff by (metis nth_mem)
  then show ?thesis by auto
qed

lemma checkConnections_all_found:
  assumes perm: "mset (sched (instanceList conns)) = mset (instanceList conns)"
    and req: "checkRequiredOutbounds outs conns = None"
    and ok: "\<forall>c \<in> set conns.
               (case get org (cr_TargetInstanceId c) of
                  Inl err \<Rightarrow> False
                | Inr inst \<Rightarrow>
                    cr_TargetInboundName c \<in> inbound_Name ` set (inst_InboundNetInterfaces inst))"
  shows "checkConnections sched get org conns outs = None"
proof -
  have "resp_Result r" if "r \<in> set (runCheckInbounds get org (sched (instanceList conns)))" for r
  proof -
    from that obtain c where c: "c \<in> set conns"
      and r: "checkInbounds get [] org (cr_TargetInstanceId c)
                (map cr_TargetInboundName
                   (filter (\<lambda>c'. cr_TargetInstanceId c' = cr_TargetInstanceId c) conns)) = [r]"
      unfolding runCheckInbounds_set [where sched = sched and conns = conns, OF perm] by auto
    from ok c obtain inst where inst: "get org (cr_TargetInstanceId c) = Inr inst"
      by (cases "get org (cr_TargetInstanceId c)") auto
    have "\<forall>c' \<in> set conns. cr_TargetInstanceId c' = cr_TargetInstanceId c \<longrightarrow>
            cr_TargetInboundName c' \<in> inbound_Name ` set (inst_InboundNetInterfaces inst)"
      using ok inst by (auto split: sum.splits)
    then have "find (\<lambda>n. n \<notin> inbound_Name ` set (inst_InboundNetInterfaces inst))
                 (map cr_TargetInboundName
                    (filter (\<lambda>c'. cr_TargetInstanceId c' = cr_TargetInstanceId c) conns)) = None"
      unfolding requested_names_all_found .
    with r inst show ?thesis
      by (simp add: checkInbounds_response) auto
  qed
  then show ?thesis
    by (simp add: checkConnections_def req resultLoop_None)
qed

lemma checkConnections_failure:
  assumes perm: "mset (sched (instanceList conns)) = mset (instanceList conns)"
    and req: "checkRequiredOutbounds outs conns = None"
    and res: "checkConnections sched get org conns outs = Some e"
  shows "\<exists>c \<in> set conns.
           (case get org (cr_TargetInstanceId c) of
              Inl err \<Rightarrow>
                e = WithParams (NewFailedPreconditionError ''instance not found'')
                      [cr_TargetInstanceId c]
            | Inr inst \<Rightarrow>
                cr_TargetInboundName c \<notin> inbound_Name ` set (inst_InboundNetInterfaces inst) \<and>
                e = (if cr_TargetInboundName c \<noteq> [] then
                       WithParams (NewFailedPreconditionError ''no inbound interface found'')
                         [cr_TargetInstanceId c, cr_TargetInboundName c]
                     else WithParams (NewFailedPreconditionError ''instance not found'')
                         [cr_TargetInstanceId c]))"
proof -
  from res req have "resultLoop (runCheckInbounds get org (sched (instanceList conns))) = Some e"
    by (simp add: checkConnections_def)
  from resultLoop_Some [OF this] obtain r where
    rin: "r \<in> set (runCheckInbounds get org (sched (instanceList conns)))"
    and bad: "\<not> resp_Result r"
    and e: "e = (if resp_InboundName r \<noteq> [] then
              WithParams (NewFailedPreconditionError ''no inbound interface found'')
                [resp_InstanceId r, resp_InboundName r]
            else WithParams (NewFailedPreconditionError ''instance not found'') [resp_InstanceId r])"
    by blast
  from rin obtain c0 where c0: "c0 \<in> set conns"
    and r: "checkInbounds get [] org (cr_TargetInstanceId c0)
              (map cr_TargetInboundName
                 (filter (\<lambda>c'. cr_TargetInstanceId c' = cr_TargetInstanceId c0) conns)) = [r]"
    unfolding runCheckInbounds_set [where sched = sched and conns = conns, OF perm] by auto
  show ?thesis
  proof (cases "get org (cr_TargetInstanceId c0)")
    case (Inl err)
    with r have "r = \<lparr>resp_InstanceId = cr_TargetInstanceId c0, resp_InboundName = [],
                      resp_Result = False\<rparr>"
      by (simp add: checkInbounds_response)
    with e Inl c0 show ?thesis by (intro bexI [of _ c0]) simp_all
  next
    case (Inr inst)
    let ?S = "inbound_Name ` set (inst_InboundNetInterfaces inst)"
    let ?names = "map cr_TargetInboundName
                 (filter (\<lambda>c'. cr_TargetInstanceId c' = cr_TargetInstanceId c0) conns)"
    from r Inr bad obtain n where n: "find (\<lambda>n. n \<notin> ?S) ?names = Some n"
      and rn: "r = \<lparr>resp_InstanceId = cr_TargetInstanceId c0, resp_InboundName = n,
                     resp_Result = False\<rparr>"
      by (auto simp: checkInbounds_response split: option.splits)
    from requested_names_first_missing [OF n] obtain c where c: "c \<in> set conns"
      and ci: "cr_TargetInstanceId c = cr_TargetInstanceId c0"
      and cn: "cr_TargetInboundName c = n" and miss: "n \<notin> ?S"
      by blast
    show ?thesis
      using c ci cn miss Inr e rn by (intro bexI [of _ c]) simp_all
  qed
qed

lemma checkConnections_some_missing:
  assumes perm: "mset (sched (instanceList conns)) = mset (instanceList conns)"
    and req: "checkRequiredOutbounds outs conns = None"
    and c: "c \<in> set conns"
    and bad: "(case get org (cr_TargetInstanceId c) of
                 Inl err \<Rightarrow> True
               | Inr inst \<Rightarrow>
                   cr_TargetInboundName c \<notin> inbound_Name ` set (inst_InboundNetInterfaces inst))"
  shows "checkConnections sched get org conns outs \<noteq> None"
proof -
  let ?names = "map cr_TargetInboundName
                 (filter (\<lambda>c'. cr_TargetInstanceId c' = cr_TargetInstanceId c) conns)"
  obtain r where r: "checkInbounds get [] org (cr_TargetInstanceId c) ?names = [r]"
    by (simp add: checkInbounds_response)
  have rin: "r \<in> set (runCheckInbounds get org (sched (instanceList conns)))"
    unfolding runCheckInbounds_set [where sched = sched and conns = conns, OF perm] using c r by blast
  have "\<not> resp_Result r"
  proof (cases "get org (cr_TargetInstanceId c)")
    case (Inl err)
    with r show ?thesis by (auto simp: checkInbounds_response)
  next
    case (Inr inst)
    with bad c have "find (\<lambda>n. n \<notin> inbound_Name ` set (inst_InboundNetInterfaces inst)) ?names \<noteq> None"
      unfolding requested_names_all_found by auto
    with r Inr show ?thesis by (auto simp: checkInbounds_response)
  qed
  with rin show ?thesis
    by (auto simp: checkConnections_def req resultLoop_None)
qed


lemma checkAllRequired_None_iff:
  "checkAllRequiredParametersAreFilled ps params = None \<longleftrightarrow>
     (\<forall>p \<in> set ps. param_Required p \<longrightarrow>
        (\<exists>l. params = Some l \<and> param_Name p \<in> ip_ParameterName ` set l))"
  by (induction ps) (auto simp: findDeployParam_iff split: option.splits)

lemma checkAllRequired_error:
  "checkAllRequiredParametersAreFilled ps params = Some e \<Longrightarrow>
     e = Derror \<lparr>errType = FailedPrecondition, message = ''Required parameter not filled'',
                 parameters = []\<rparr>"
  by (induction ps)
     (auto simp: NewFailedPreconditionError_def RequiredParamNotFilled_def Let_def split: if_splits)

text \<open>
  C4. The check passes exactly when every required descriptor parameter has a deploy
  parameter of the same name (\<open>checkAllRequired_None_iff\<close>). The error it returns is
  always the same one: the fixed message and no parameter, so the missing parameter is
  not named, while the sibling check of the required outbounds in \<^verbatim>\<open>checkConnections\<close>
  attaches the missing name with \<^verbatim>\<open>WithParams\<close>. Evaluated here on a descriptor whose
  required parameter \<open>replicas\<close> is missing from the request.
\<close>

theorem checkAllRequired_error_has_no_name:
  "checkAllRequiredParametersAreFilled
     [\<lparr>param_Name = ''replicas'', param_Type = ParamDataType_INTEGER,
       param_Path = ''groups.0.specs.replicas'', param_Required = True, param_EnumValues = []\<rparr>]
     (Some [\<lparr>ip_ParameterName = ''other'', ip_Value = ''3''\<rparr>])
   = Some (Derror \<lparr>errType = FailedPrecondition, message = ''Required parameter not filled'',
                    parameters = []\<rparr>)"
  by (simp add: NewFailedPreconditionError_def RequiredParamNotFilled_def)



text \<open>
  What \<^verbatim>\<open>checkConnections\<close> computes, for every order in which the lookups answer. The
  first required outbound (in descriptor order) that no connection names as its source
  fails the check with that outbound's name as the only parameter. When all required
  outbounds are named, the check passes if every target instance is found and declares
  every inbound name requested on it; otherwise it fails with a failed precondition
  whose parameters are those the loop over the responses attaches for an offending
  instance.
\<close>

lemma checkConnections_outcome:
  assumes perm: "mset (sched (instanceList conns)) = mset (instanceList conns)"
  shows
    "case find (\<lambda>ob. outbound_Required ob \<and>
                      outbound_Name ob \<notin> cr_SourceOutboundName ` set conns) outs of
       Some ob \<Rightarrow>
         checkConnections sched get org conns outs =
           Some (WithParams (NewFailedPreconditionError RequiredOutboundNotFilled) [outbound_Name ob])
     | None \<Rightarrow>
         if \<forall>c \<in> set conns.
              (case get org (cr_TargetInstanceId c) of
                 Inl err \<Rightarrow> False
               | Inr inst \<Rightarrow>
                   cr_TargetInboundName c \<in> inbound_Name ` set (inst_InboundNetInterfaces inst))
         then checkConnections sched get org conns outs = None
         else
           (\<exists>e. \<exists>c \<in> set conns.
              checkConnections sched get org conns outs = Some e \<and>
              errType e = FailedPrecondition \<and>
              (case get org (cr_TargetInstanceId c) of
                 Inl err \<Rightarrow> parameters e = [cr_TargetInstanceId c]
               | Inr inst \<Rightarrow>
                   cr_TargetInboundName c \<notin> inbound_Name ` set (inst_InboundNetInterfaces inst) \<and>
                   (if cr_TargetInboundName c \<noteq> [] then
                      parameters e = [cr_TargetInstanceId c, cr_TargetInboundName c]
                    else parameters e = [cr_TargetInstanceId c])))"
proof (cases "find (\<lambda>ob. outbound_Required ob \<and>
                      outbound_Name ob \<notin> cr_SourceOutboundName ` set conns) outs")
  case (Some ob)
  then show ?thesis
    by (simp add: checkConnections_def checkRequiredOutbounds_find)
next
  case None
  then have req: "checkRequiredOutbounds outs conns = None"
    by (simp add: checkRequiredOutbounds_find)
  show ?thesis
  proof (cases "\<forall>c \<in> set conns.
              (case get org (cr_TargetInstanceId c) of
                 Inl err \<Rightarrow> False
               | Inr inst \<Rightarrow>
                   cr_TargetInboundName c \<in> inbound_Name ` set (inst_InboundNetInterfaces inst))")
    case True
    have res: "checkConnections sched get org conns outs = None"
      by (rule checkConnections_all_found [where sched = sched and conns = conns and get = get
            and org = org and outs = outs, OF perm req True])
    have cond: "(\<forall>c \<in> set conns.
              (case get org (cr_TargetInstanceId c) of
                 Inl err \<Rightarrow> False
               | Inr inst \<Rightarrow>
                   cr_TargetInboundName c \<in> inbound_Name ` set (inst_InboundNetInterfaces inst)))
          = True"
      using True by simp
    show ?thesis
      unfolding None option.case cond if_True by (rule res)
  next
    case False
    then obtain c0 where c0: "c0 \<in> set conns"
      and bad: "(case get org (cr_TargetInstanceId c0) of
                 Inl err \<Rightarrow> True
               | Inr inst \<Rightarrow>
                   cr_TargetInboundName c0 \<notin> inbound_Name ` set (inst_InboundNetInterfaces inst))"
      by (auto split: sum.splits)
    from checkConnections_some_missing [where sched = sched and conns = conns and get = get and org = org and outs = outs, OF perm req c0 bad]
    obtain e where e: "checkConnections sched get org conns outs = Some e"
      by auto
    from checkConnections_failure [where sched = sched and conns = conns and get = get and org = org and outs = outs, OF perm req e]
    obtain c where c: "c \<in> set conns"
      and shape: "(case get org (cr_TargetInstanceId c) of
              Inl err \<Rightarrow>
                e = WithParams (NewFailedPreconditionError ''instance not found'')
                      [cr_TargetInstanceId c]
            | Inr inst \<Rightarrow>
                cr_TargetInboundName c \<notin> inbound_Name ` set (inst_InboundNetInterfaces inst) \<and>
                e = (if cr_TargetInboundName c \<noteq> [] then
                       WithParams (NewFailedPreconditionError ''no inbound interface found'')
                         [cr_TargetInstanceId c, cr_TargetInboundName c]
                     else WithParams (NewFailedPreconditionError ''instance not found'')
                         [cr_TargetInstanceId c]))"
      by blast
    have "errType e = FailedPrecondition \<and>
              (case get org (cr_TargetInstanceId c) of
                 Inl err \<Rightarrow> parameters e = [cr_TargetInstanceId c]
               | Inr inst \<Rightarrow>
                   cr_TargetInboundName c \<notin> inbound_Name ` set (inst_InboundNetInterfaces inst) \<and>
                   (if cr_TargetInboundName c \<noteq> [] then
                      parameters e = [cr_TargetInstanceId c, cr_TargetInboundName c]
                    else parameters e = [cr_TargetInstanceId c]))"
      using shape
      by (cases "get org (cr_TargetInstanceId c)")
         (auto simp: WithParams_def NewFailedPreconditionError_def)
    with e c have ex: "\<exists>e. \<exists>c \<in> set conns.
              checkConnections sched get org conns outs = Some e \<and>
              errType e = FailedPrecondition \<and>
              (case get org (cr_TargetInstanceId c) of
                 Inl err \<Rightarrow> parameters e = [cr_TargetInstanceId c]
               | Inr inst \<Rightarrow>
                   cr_TargetInboundName c \<notin> inbound_Name ` set (inst_InboundNetInterfaces inst) \<and>
                   (if cr_TargetInboundName c \<noteq> [] then
                      parameters e = [cr_TargetInstanceId c, cr_TargetInboundName c]
                    else parameters e = [cr_TargetInstanceId c]))"
      by blast
    have cond: "(\<forall>c \<in> set conns.
              (case get org (cr_TargetInstanceId c) of
                 Inl err \<Rightarrow> False
               | Inr inst \<Rightarrow>
                   cr_TargetInboundName c \<in> inbound_Name ` set (inst_InboundNetInterfaces inst)))
          = False"
      using False by simp
    show ?thesis
      unfolding None option.case cond if_False by (rule ex)
  qed
qed

text \<open>
  The outcome at a request whose second target lacks the requested inbound, the lookups
  answering in the reverse order.
\<close>

lemma checkConnections_outcome_example:
  "mset (rev (instanceList
       [\<lparr>cr_SourceOutboundName = ''out1'', cr_TargetInstanceId = ''i1'', cr_TargetInboundName = ''in1''\<rparr>,
        \<lparr>cr_SourceOutboundName = ''out1'', cr_TargetInstanceId = ''i2'', cr_TargetInboundName = ''in9''\<rparr>]))
    = mset (instanceList
       [\<lparr>cr_SourceOutboundName = ''out1'', cr_TargetInstanceId = ''i1'', cr_TargetInboundName = ''in1''\<rparr>,
        \<lparr>cr_SourceOutboundName = ''out1'', cr_TargetInstanceId = ''i2'', cr_TargetInboundName = ''in9''\<rparr>])
   \<and> checkConnections rev
       (\<lambda>org i. Inr \<lparr>inst_OrganizationId = org, inst_AppDescriptorId = ''d1'',
        inst_AppInstanceId = i, inst_Name = ''target'', inst_ConfigurationOptions = None,
        inst_EnvironmentVariables = None, inst_Labels = None, inst_Rules = [],
        inst_InboundNetInterfaces = [\<lparr>inbound_Name = ''in1''\<rparr>],
        inst_OutboundNetInterfaces = []\<rparr>)
       ''org''
       [\<lparr>cr_SourceOutboundName = ''out1'', cr_TargetInstanceId = ''i1'', cr_TargetInboundName = ''in1''\<rparr>,
        \<lparr>cr_SourceOutboundName = ''out1'', cr_TargetInstanceId = ''i2'', cr_TargetInboundName = ''in9''\<rparr>]
       [\<lparr>outbound_Name = ''out1'', outbound_Required = True\<rparr>]
     = Some \<lparr>errType = FailedPrecondition, message = ''no inbound interface found'',
             parameters = [''i2'', ''in9'']\<rparr>"
  using checkConnections_outcome [where sched = rev and conns =
       "[\<lparr>cr_SourceOutboundName = ''out1'', cr_TargetInstanceId = ''i1'', cr_TargetInboundName = ''in1''\<rparr>,
        \<lparr>cr_SourceOutboundName = ''out1'', cr_TargetInstanceId = ''i2'', cr_TargetInboundName = ''in9''\<rparr>]"
       and outs = "[\<lparr>outbound_Name = ''out1'', outbound_Required = True\<rparr>]"
       and get = "(\<lambda>org i. Inr \<lparr>inst_OrganizationId = org, inst_AppDescriptorId = ''d1'',
        inst_AppInstanceId = i, inst_Name = ''target'', inst_ConfigurationOptions = None,
        inst_EnvironmentVariables = None, inst_Labels = None, inst_Rules = [],
        inst_InboundNetInterfaces = [\<lparr>inbound_Name = ''in1''\<rparr>],
        inst_OutboundNetInterfaces = []\<rparr>)" and org = "''org''"]
  by (simp add: checkConnections_def instanceList_def runCheckInbounds_def checkInbounds_def
        WithParams_def NewFailedPreconditionError_def)

text \<open>
  C3. The required outbounds are checked first, in descriptor order, and the check
  passes when every target instance is found and declares every inbound requested on it
  (\<open>checkConnections_outcome\<close>). The error of a failed check does not always
  identify what failed. The loop over the responses tells a missing inbound from a
  failed lookup by the inbound name of the response being non-empty, and a failed lookup
  leaves that name empty. So when the instance is found and the inbound it lacks is the
  empty name, the error is \<open>instance not found\<close> with the instance id alone: the
  error of a lookup that failed, on the branch whose comment reserves it for a database
  error or an instance that does not exist. A missing inbound of any other name is
  reported as \<open>no inbound interface found\<close> with the id and the name. Evaluated
  here on a request with one connection to the instance \<open>i1\<close>, which is found and
  whose only inbound is \<open>in1\<close>: first with the empty inbound name, then the same
  request with a lookup that fails, then with the inbound name \<open>in9\<close>.
\<close>

theorem checkConnections_empty_inbound_reported_as_not_found:
  "(\<lambda>org i. Inr \<lparr>inst_OrganizationId = org, inst_AppDescriptorId = ''d1'',
        inst_AppInstanceId = i, inst_Name = ''target'', inst_ConfigurationOptions = None,
        inst_EnvironmentVariables = None, inst_Labels = None, inst_Rules = [],
        inst_InboundNetInterfaces = [\<lparr>inbound_Name = ''in1''\<rparr>],
        inst_OutboundNetInterfaces = []\<rparr>) ''org'' ''i1''
     = (Inr \<lparr>inst_OrganizationId = ''org'', inst_AppDescriptorId = ''d1'',
        inst_AppInstanceId = ''i1'', inst_Name = ''target'', inst_ConfigurationOptions = None,
        inst_EnvironmentVariables = None, inst_Labels = None, inst_Rules = [],
        inst_InboundNetInterfaces = [\<lparr>inbound_Name = ''in1''\<rparr>],
        inst_OutboundNetInterfaces = []\<rparr> :: error + AppInstance)
   \<and> checkConnections (\<lambda>l. l)
       (\<lambda>org i. Inr \<lparr>inst_OrganizationId = org, inst_AppDescriptorId = ''d1'',
        inst_AppInstanceId = i, inst_Name = ''target'', inst_ConfigurationOptions = None,
        inst_EnvironmentVariables = None, inst_Labels = None, inst_Rules = [],
        inst_InboundNetInterfaces = [\<lparr>inbound_Name = ''in1''\<rparr>],
        inst_OutboundNetInterfaces = []\<rparr>)
       ''org''
       [\<lparr>cr_SourceOutboundName = ''out1'', cr_TargetInstanceId = ''i1'', cr_TargetInboundName = []\<rparr>]
       []
     = Some \<lparr>errType = FailedPrecondition, message = ''instance not found'',
             parameters = [''i1'']\<rparr>
   \<and> checkConnections (\<lambda>l. l)
       (\<lambda>org i. Inl (RemoteError ''unavailable''))
       ''org''
       [\<lparr>cr_SourceOutboundName = ''out1'', cr_TargetInstanceId = ''i1'', cr_TargetInboundName = []\<rparr>]
       []
     = Some \<lparr>errType = FailedPrecondition, message = ''instance not found'',
             parameters = [''i1'']\<rparr>
   \<and> checkConnections (\<lambda>l. l)
       (\<lambda>org i. Inr \<lparr>inst_OrganizationId = org, inst_AppDescriptorId = ''d1'',
        inst_AppInstanceId = i, inst_Name = ''target'', inst_ConfigurationOptions = None,
        inst_EnvironmentVariables = None, inst_Labels = None, inst_Rules = [],
        inst_InboundNetInterfaces = [\<lparr>inbound_Name = ''in1''\<rparr>],
        inst_OutboundNetInterfaces = []\<rparr>)
       ''org''
       [\<lparr>cr_SourceOutboundName = ''out1'', cr_TargetInstanceId = ''i1'', cr_TargetInboundName = ''in9''\<rparr>]
       []
     = Some \<lparr>errType = FailedPrecondition, message = ''no inbound interface found'',
             parameters = [''i1'', ''in9'']\<rparr>"
  by (simp add: checkConnections_def instanceList_def runCheckInbounds_def checkInbounds_def
        WithParams_def NewFailedPreconditionError_def)

section \<open>Properties of the workflows and of the parametrization\<close>

lemma removalsOf_append: "removalsOf (xs @ ys) = removalsOf xs @ removalsOf ys"
  by (induction xs rule: removalsOf.induct) simp_all

lemma descriptorInUseLoop_iff:
  "descriptorInUseLoop instances d \<longleftrightarrow> d \<in> inst_AppDescriptorId ` set instances"
  by (induction instances) auto

text \<open>
  C9. When an instance of the organization has the descriptor's id, the call fails with
  a failed precondition and the trace gains the listing only; the removal is forwarded
  to the store, after the listing, exactly when the listing succeeded and no instance
  has that id.
\<close>

theorem RemoveAppDescriptor_guard:
  "case ListAppInstances sv tr org of
     Inl err \<Rightarrow>
       RemoveAppDescriptor sv tr org did = (tr @ [CallListAppInstances org], Some err)
   | Inr instances \<Rightarrow>
       if did \<in> inst_AppDescriptorId ` set instances then
         RemoveAppDescriptor sv tr org did =
           (tr @ [CallListAppInstances org],
            Some (Derror (NewFailedPreconditionError
               ''application instances must be removed before deleting the descriptor'')))
         \<and> errorType (Derror (NewFailedPreconditionError
               ''application instances must be removed before deleting the descriptor''))
             = Some FailedPrecondition
       else
         RemoveAppDescriptor sv tr org did =
           (tr @ [CallListAppInstances org, CallRemoveAppDescriptor org did],
            RemoveAppDescriptorCall sv (tr @ [CallListAppInstances org]) org did)"
  by (simp add: RemoveAppDescriptor_def descriptorInUseLoop_iff NewFailedPreconditionError_def
        Let_def split: sum.splits)

lemma removeConnectionsLoop_trace:
  "\<exists>mid. removeConnectionsLoop sv tr conns msg = tr @ mid \<and>
         removalsOf mid = map removeRequest conns \<and> filter isQueueSend mid = []"
proof (induction conns arbitrary: tr)
  case Nil
  then show ?case by simp
next
  case (Cons conn conns)
  show ?case
  proof (cases "RemoveConnection sv tr (removeRequest conn)")
    case None
    from Cons.IH [of "tr @ [CallRemoveConnection (removeRequest conn)]"]
    obtain mid where "removeConnectionsLoop sv (tr @ [CallRemoveConnection (removeRequest conn)]) conns msg
           = (tr @ [CallRemoveConnection (removeRequest conn)]) @ mid"
      and "removalsOf mid = map removeRequest conns" and "filter isQueueSend mid = []"
      by blast
    then show ?thesis
      using None
      by (intro exI [of _ "CallRemoveConnection (removeRequest conn) # mid"]) simp
  next
    case (Some rErr)
    from Cons.IH [of "tr @ [CallRemoveConnection (removeRequest conn)] @ [LogError msg]"]
    obtain mid where "removeConnectionsLoop sv (tr @ [CallRemoveConnection (removeRequest conn)] @ [LogError msg]) conns msg
           = (tr @ [CallRemoveConnection (removeRequest conn)] @ [LogError msg]) @ mid"
      and "removalsOf mid = map removeRequest conns" and "filter isQueueSend mid = []"
      by blast
    then show ?thesis
      using Some
      by (intro exI [of _ "CallRemoveConnection (removeRequest conn) # LogError msg # mid"]) simp
  qed
qed

lemma GetAppInstanceExpanded_trace:
  "GetAppInstanceExpanded sv tr org iid = (tr1, r) \<Longrightarrow>
     \<exists>reads. tr1 = tr @ reads \<and> removalsOf reads = [] \<and> filter isQueueSend reads = []"
  by (auto simp: GetAppInstanceExpanded_def getInstanceConnections_def Let_def
           split: sum.splits option.splits prod.splits)

text \<open>
  C2. Once the expanded instance has been fetched: with an inbound connection and no
  user confirmation, \<^verbatim>\<open>Undeploy\<close> fails with a failed precondition, and the trace gains
  no connection removal and no command to the queue. Otherwise it asks for the removal
  of every inbound and then every outbound connection, each request carrying the
  organization, the source and target instance ids and the inbound and outbound names of
  its connection with the user confirmation set, whatever each removal answers, and
  only then sends the undeploy command; its result is that of the queue.
\<close>

theorem Undeploy_guard_and_removals:
  assumes get: "GetAppInstanceExpanded sv tr (ur_OrganizationId req) (ur_AppInstanceId req)
                  = (tr1, Inr inst)"
  shows
    "if exp_InboundConnections inst \<noteq> [] \<and> \<not> ur_UserConfirmation req then
       (\<exists>e. Undeploy sv tr req = (tr1, Some e) \<and> errorType e = Some FailedPrecondition) \<and>
       removalsOf tr1 = removalsOf tr \<and>
       filter isQueueSend tr1 = filter isQueueSend tr
     else
       (\<exists>mid logs.
          fst (Undeploy sv tr req) =
            tr1 @ mid @ [CallSendUndeploy (ur_OrganizationId req) (ur_AppInstanceId req)] @ logs \<and>
          removalsOf mid =
            map (\<lambda>conn. \<lparr>rc_OrganizationId = ci_OrganizationId conn,
                         rc_SourceInstanceId = ci_SourceInstanceId conn,
                         rc_TargetInstanceId = ci_TargetInstanceId conn,
                         rc_InboundName = ci_InboundName conn,
                         rc_OutboundName = ci_OutboundName conn,
                         rc_UserConfirmation = True\<rparr>)
              (exp_InboundConnections inst @ exp_OutboundConnections inst) \<and>
          filter isQueueSend mid = [] \<and>
          filter isQueueSend logs = [] \<and>
          snd (Undeploy sv tr req) =
            SendUndeploy sv (tr1 @ mid) (ur_OrganizationId req) (ur_AppInstanceId req))"
proof (cases "exp_InboundConnections inst \<noteq> [] \<and> \<not> ur_UserConfirmation req")
  case True
  from GetAppInstanceExpanded_trace [OF get] obtain reads where
    "tr1 = tr @ reads" "removalsOf reads = []" "filter isQueueSend reads = []"
    by blast
  then have "removalsOf tr1 = removalsOf tr \<and> filter isQueueSend tr1 = filter isQueueSend tr"
    by (simp add: removalsOf_append)
  moreover have "\<exists>e. Undeploy sv tr req = (tr1, Some e) \<and> errorType e = Some FailedPrecondition"
    using True by (simp add: Undeploy_def get NewFailedPreconditionError_def)
  ultimately have goal: "(\<exists>e. Undeploy sv tr req = (tr1, Some e) \<and> errorType e = Some FailedPrecondition) \<and>
       removalsOf tr1 = removalsOf tr \<and>
       filter isQueueSend tr1 = filter isQueueSend tr"
    by blast
  have c: "(exp_InboundConnections inst \<noteq> [] \<and> \<not> ur_UserConfirmation req) = True"
    using True by simp
  show ?thesis unfolding c if_True by (rule goal)
next
  case False
  let ?org = "ur_OrganizationId req" and ?iid = "ur_AppInstanceId req"
  let ?request = "\<lambda>conn. \<lparr>rc_OrganizationId = ci_OrganizationId conn,
                         rc_SourceInstanceId = ci_SourceInstanceId conn,
                         rc_TargetInstanceId = ci_TargetInstanceId conn,
                         rc_InboundName = ci_InboundName conn,
                         rc_OutboundName = ci_OutboundName conn,
                         rc_UserConfirmation = True\<rparr>"
  have request: "removeRequest = ?request"
    by (rule ext) (simp add: removeRequest_def)
  obtain m1 where m1: "removeConnectionsLoop sv tr1 (exp_InboundConnections inst)
                         ''Error removing inbound connection'' = tr1 @ m1"
    and r1: "removalsOf m1 = map removeRequest (exp_InboundConnections inst)"
    and q1: "filter isQueueSend m1 = []"
    using removeConnectionsLoop_trace by blast
  obtain m2 where m2: "removeConnectionsLoop sv (tr1 @ m1) (exp_OutboundConnections inst)
                         ''Error removing outbound connection'' = (tr1 @ m1) @ m2"
    and r2: "removalsOf m2 = map removeRequest (exp_OutboundConnections inst)"
    and q2: "filter isQueueSend m2 = []"
    using removeConnectionsLoop_trace by blast
  have cond: "\<not> (0 < length (exp_InboundConnections inst) \<and> \<not> ur_UserConfirmation req)"
    using False by simp
  have "fst (Undeploy sv tr req) =
          tr1 @ (m1 @ m2) @ [CallSendUndeploy ?org ?iid] @
            (case SendUndeploy sv (tr1 @ m1 @ m2) ?org ?iid of
               None \<Rightarrow> []
             | Some err \<Rightarrow> [LogError ''error when sending the undeploy request to the queue''])
        \<and> snd (Undeploy sv tr req) = SendUndeploy sv (tr1 @ (m1 @ m2)) ?org ?iid"
    using cond m2 by (simp add: Undeploy_def get m1 Let_def split: option.splits)
  moreover have "removalsOf (m1 @ m2) =
      map ?request (exp_InboundConnections inst @ exp_OutboundConnections inst)"
    unfolding removalsOf_append r1 r2 request by simp
  moreover have "filter isQueueSend (m1 @ m2) = []"
    by (simp add: q1 q2)
  moreover have "filter isQueueSend
            (case SendUndeploy sv (tr1 @ m1 @ m2) ?org ?iid of
               None \<Rightarrow> []
             | Some err \<Rightarrow> [LogError ''error when sending the undeploy request to the queue'']) = []"
    by (simp split: option.splits)
  ultimately have goal: "\<exists>mid logs.
          fst (Undeploy sv tr req) =
            tr1 @ mid @ [CallSendUndeploy (ur_OrganizationId req) (ur_AppInstanceId req)] @ logs \<and>
          removalsOf mid =
            map ?request (exp_InboundConnections inst @ exp_OutboundConnections inst) \<and>
          filter isQueueSend mid = [] \<and>
          filter isQueueSend logs = [] \<and>
          snd (Undeploy sv tr req) =
            SendUndeploy sv (tr1 @ mid) (ur_OrganizationId req) (ur_AppInstanceId req)"
    by blast
  have c: "(exp_InboundConnections inst \<noteq> [] \<and> \<not> ur_UserConfirmation req) = False"
    using False by simp
  show ?thesis unfolding c if_False by (rule goal)
qed

text \<open>
  C2, at an instance with one inbound and one outbound connection, every removal
  failing. The confirmed request asks for both removals, the inbound one first, logs
  both failures and still sends the command; the request without confirmation fails
  after the three reads.
\<close>

theorem Undeploy_guard_and_removals_witness:
  "GetAppInstanceExpanded
      (stubServices\<lparr>ListOutboundConnections :=
          (\<lambda>tr org iid. Inr (Some
             [\<lparr>ci_OrganizationId = ''org'', ci_SourceInstanceId = ''inst-1'',
               ci_SourceInstanceName = ''service1'', ci_TargetInstanceId = ''inst-2'',
               ci_InboundName = ''in2'', ci_OutboundName = ''out1''\<rparr>])),
        RemoveConnection := (\<lambda>tr r. Some (RemoteError ''unreachable''))\<rparr>) []
      ''org'' ''inst-1''
     = ([CallGetAppInstance ''org'' ''inst-1'', CallListInboundConnections ''org'' ''inst-1'',
         CallListOutboundConnections ''org'' ''inst-1''],
        Inr \<lparr>exp_Instance = exampleInstance,
             exp_InboundConnections =
               [\<lparr>ci_OrganizationId = ''org'', ci_SourceInstanceId = ''inst-0'',
                 ci_SourceInstanceName = ''service0'', ci_TargetInstanceId = ''inst-1'',
                 ci_InboundName = ''in1'', ci_OutboundName = ''out0''\<rparr>],
             exp_OutboundConnections =
               [\<lparr>ci_OrganizationId = ''org'', ci_SourceInstanceId = ''inst-1'',
                 ci_SourceInstanceName = ''service1'', ci_TargetInstanceId = ''inst-2'',
                 ci_InboundName = ''in2'', ci_OutboundName = ''out1''\<rparr>]\<rparr>)
   \<and> Undeploy
       (stubServices\<lparr>ListOutboundConnections :=
          (\<lambda>tr org iid. Inr (Some
             [\<lparr>ci_OrganizationId = ''org'', ci_SourceInstanceId = ''inst-1'',
               ci_SourceInstanceName = ''service1'', ci_TargetInstanceId = ''inst-2'',
               ci_InboundName = ''in2'', ci_OutboundName = ''out1''\<rparr>])),
        RemoveConnection := (\<lambda>tr r. Some (RemoteError ''unreachable''))\<rparr>) []
       \<lparr>ur_OrganizationId = ''org'', ur_AppInstanceId = ''inst-1'', ur_UserConfirmation = True\<rparr>
     = ([CallGetAppInstance ''org'' ''inst-1'', CallListInboundConnections ''org'' ''inst-1'',
         CallListOutboundConnections ''org'' ''inst-1'',
         CallRemoveConnection
           \<lparr>rc_OrganizationId = ''org'', rc_SourceInstanceId = ''inst-0'',
            rc_TargetInstanceId = ''inst-1'', rc_InboundName = ''in1'',
            rc_OutboundName = ''out0'', rc_UserConfirmation = True\<rparr>,
         LogError ''Error removing inbound connection'',
         CallRemoveConnection
           \<lparr>rc_OrganizationId = ''org'', rc_SourceInstanceId = ''inst-1'',
            rc_TargetInstanceId = ''inst-2'', rc_InboundName = ''in2'',
            rc_OutboundName = ''out1'', rc_UserConfirmation = True\<rparr>,
         LogError ''Error removing outbound connection'',
         CallSendUndeploy ''org'' ''inst-1''],
        None)
   \<and> (\<exists>mid logs.
          fst (Undeploy
                 (stubServices\<lparr>ListOutboundConnections :=
                    (\<lambda>tr org iid. Inr (Some
                       [\<lparr>ci_OrganizationId = ''org'', ci_SourceInstanceId = ''inst-1'',
                         ci_SourceInstanceName = ''service1'', ci_TargetInstanceId = ''inst-2'',
                         ci_InboundName = ''in2'', ci_OutboundName = ''out1''\<rparr>])),
                  RemoveConnection := (\<lambda>tr r. Some (RemoteError ''unreachable''))\<rparr>) []
                 \<lparr>ur_OrganizationId = ''org'', ur_AppInstanceId = ''inst-1'',
                  ur_UserConfirmation = True\<rparr>) =
            [CallGetAppInstance ''org'' ''inst-1'', CallListInboundConnections ''org'' ''inst-1'',
             CallListOutboundConnections ''org'' ''inst-1''] @ mid @
            [CallSendUndeploy ''org'' ''inst-1''] @ logs \<and>
          removalsOf mid =
            [\<lparr>rc_OrganizationId = ''org'', rc_SourceInstanceId = ''inst-0'',
              rc_TargetInstanceId = ''inst-1'', rc_InboundName = ''in1'',
              rc_OutboundName = ''out0'', rc_UserConfirmation = True\<rparr>,
             \<lparr>rc_OrganizationId = ''org'', rc_SourceInstanceId = ''inst-1'',
              rc_TargetInstanceId = ''inst-2'', rc_InboundName = ''in2'',
              rc_OutboundName = ''out1'', rc_UserConfirmation = True\<rparr>])
   \<and> (\<exists>e. Undeploy
             (stubServices\<lparr>ListOutboundConnections :=
                (\<lambda>tr org iid. Inr (Some
                   [\<lparr>ci_OrganizationId = ''org'', ci_SourceInstanceId = ''inst-1'',
                     ci_SourceInstanceName = ''service1'', ci_TargetInstanceId = ''inst-2'',
                     ci_InboundName = ''in2'', ci_OutboundName = ''out1''\<rparr>])),
              RemoveConnection := (\<lambda>tr r. Some (RemoteError ''unreachable''))\<rparr>) []
             \<lparr>ur_OrganizationId = ''org'', ur_AppInstanceId = ''inst-1'',
              ur_UserConfirmation = False\<rparr>
           = ([CallGetAppInstance ''org'' ''inst-1'', CallListInboundConnections ''org'' ''inst-1'',
               CallListOutboundConnections ''org'' ''inst-1''], Some e)
         \<and> errorType e = Some FailedPrecondition)"
proof -
  let ?sv = "stubServices\<lparr>ListOutboundConnections :=
          (\<lambda>tr org iid. Inr (Some
             [\<lparr>ci_OrganizationId = ''org'', ci_SourceInstanceId = ''inst-1'',
               ci_SourceInstanceName = ''service1'', ci_TargetInstanceId = ''inst-2'',
               ci_InboundName = ''in2'', ci_OutboundName = ''out1''\<rparr>])),
        RemoveConnection := (\<lambda>tr r. Some (RemoteError ''unreachable''))\<rparr>"
  let ?reads = "[CallGetAppInstance ''org'' ''inst-1'', CallListInboundConnections ''org'' ''inst-1'',
         CallListOutboundConnections ''org'' ''inst-1'']"
  let ?inst = "\<lparr>exp_Instance = exampleInstance,
             exp_InboundConnections =
               [\<lparr>ci_OrganizationId = ''org'', ci_SourceInstanceId = ''inst-0'',
                 ci_SourceInstanceName = ''service0'', ci_TargetInstanceId = ''inst-1'',
                 ci_InboundName = ''in1'', ci_OutboundName = ''out0''\<rparr>],
             exp_OutboundConnections =
               [\<lparr>ci_OrganizationId = ''org'', ci_SourceInstanceId = ''inst-1'',
                 ci_SourceInstanceName = ''service1'', ci_TargetInstanceId = ''inst-2'',
                 ci_InboundName = ''in2'', ci_OutboundName = ''out1''\<rparr>]\<rparr>"
  let ?yes = "\<lparr>ur_OrganizationId = ''org'', ur_AppInstanceId = ''inst-1'', ur_UserConfirmation = True\<rparr>"
  let ?no = "\<lparr>ur_OrganizationId = ''org'', ur_AppInstanceId = ''inst-1'', ur_UserConfirmation = False\<rparr>"
  have g: "GetAppInstanceExpanded ?sv [] ''org'' ''inst-1'' = (?reads, Inr ?inst)"
    by (simp add: GetAppInstanceExpanded_def getInstanceConnections_def stubServices_def
          ToAppInstance_def exampleInstance_def exampleConnection_def Let_def)
  have hy: "GetAppInstanceExpanded ?sv [] (ur_OrganizationId ?yes) (ur_AppInstanceId ?yes)
              = (?reads, Inr ?inst)"
    using g by simp
  have hn: "GetAppInstanceExpanded ?sv [] (ur_OrganizationId ?no) (ur_AppInstanceId ?no)
              = (?reads, Inr ?inst)"
    using g by simp
  have u: "Undeploy ?sv [] ?yes
     = (?reads @
        [CallRemoveConnection
           \<lparr>rc_OrganizationId = ''org'', rc_SourceInstanceId = ''inst-0'',
            rc_TargetInstanceId = ''inst-1'', rc_InboundName = ''in1'',
            rc_OutboundName = ''out0'', rc_UserConfirmation = True\<rparr>,
         LogError ''Error removing inbound connection'',
         CallRemoveConnection
           \<lparr>rc_OrganizationId = ''org'', rc_SourceInstanceId = ''inst-1'',
            rc_TargetInstanceId = ''inst-2'', rc_InboundName = ''in2'',
            rc_OutboundName = ''out1'', rc_UserConfirmation = True\<rparr>,
         LogError ''Error removing outbound connection'',
         CallSendUndeploy ''org'' ''inst-1''],
        None)"
    using g by (simp add: Undeploy_def Let_def removeRequest_def) (simp add: stubServices_def removeRequest_def)
  from Undeploy_guard_and_removals [OF hy] Undeploy_guard_and_removals [OF hn] g u
  show ?thesis by simp blast
qed

lemma rollbackInstance_trace:
  "rollbackInstance sv tr org iid =
     tr @ [CallRemoveAppInstance org iid] @
       (case RemoveAppInstance sv tr org iid of
          None \<Rightarrow> []
        | Some rollbackErr \<Rightarrow> [LogError ''error in rollback deleting the instance''])"
  by (simp add: rollbackInstance_def Let_def split: option.splits)

lemma persistAndSchedule_rollback:
  assumes "AddParametrizedDescriptor sv tr pd = Inl err"
  shows "persistAndSchedule sv tr req pd inst connections =
           (tr @ [CallAddParametrizedDescriptor pd,
                  LogError ''error adding  parametrized descriptor. Delete instance'',
                  CallRemoveAppInstance (dr_OrganizationId req) (inst_AppInstanceId inst)] @
              (case RemoveAppInstance sv
                      (tr @ [CallAddParametrizedDescriptor pd,
                             LogError ''error adding  parametrized descriptor. Delete instance''])
                      (dr_OrganizationId req) (inst_AppInstanceId inst) of
                 None \<Rightarrow> []
               | Some rollbackErr \<Rightarrow> [LogError ''error in rollback deleting the instance'']),
            Inl err)"
  using assms by (simp add: persistAndSchedule_def rollbackInstance_trace Let_def)

lemma checkConnections_None_required:
  "checkConnections sched get org conns outs = None \<Longrightarrow> checkRequiredOutbounds outs conns = None"
  by (simp add: checkConnections_def split: option.splits)

text \<open>
  C1. When the descriptor was fetched, both checks passed, the descriptor was
  parametrized, the instance was created and its connections were resolved, and
  \<^verbatim>\<open>AddParametrizedDescriptor\<close> then fails: \<^verbatim>\<open>Deploy\<close> calls \<^verbatim>\<open>RemoveAppInstance\<close> for
  the instance just created and returns the error of \<^verbatim>\<open>AddParametrizedDescriptor\<close>,
  whether the removal succeeds or fails; a failed removal adds a log line only.
\<close>

theorem Deploy_rollback_on_persist_failure:
  fixes L sv sched tr req desc pd inst connections logs err
  defines "org \<equiv> dr_OrganizationId req"
    and "tr1 \<equiv> tr @ [CallGetAppDescriptor (dr_OrganizationId req) (dr_AppDescriptorId req)]"
  defines "tr2 \<equiv> tr1 @ map (\<lambda>(instanceId, inboundList). CallGetAppInstance org instanceId)
                         (sched (instanceList (dr_OutboundConnections req)))"
    and "addReq \<equiv> \<lparr>air_OrganizationId = org, air_AppDescriptorId = dr_AppDescriptorId req,
                    air_Name = dr_Name req, air_Parameters = dr_Parameters req\<rparr>"
    and "pd' \<equiv> pd\<lparr>pd_AppInstanceId := inst_AppInstanceId inst\<rparr>"
  defines "tr3 \<equiv> tr2 @ [CallAddAppInstance addReq] @ logs"
  assumes fetched: "GetAppDescriptor sv tr org (dr_AppDescriptorId req) = Inr desc"
    and filled: "checkAllRequiredParametersAreFilled (desc_Parameters desc) (dr_Parameters req) = None"
    and connected: "checkConnections sched (GetAppInstance sv tr1) org (dr_OutboundConnections req)
                      (desc_OutboundNetInterfaces desc) = None"
    and parametrized: "CreateParametrizedDescriptor L desc (dr_Parameters req) = (Some pd, None)"
    and created: "AddAppInstance sv tr2 addReq = Inr inst"
    and resolved: "resolveConnections (desc_OrganizationId desc) (inst_Rules inst)
                     (dr_OutboundConnections req) = Some (connections, logs)"
    and persist_fails: "AddParametrizedDescriptor sv tr3 pd' = Inl err"
  shows "Deploy L sv sched tr req =
           (tr3 @ [CallAddParametrizedDescriptor pd',
                   LogError ''error adding  parametrized descriptor. Delete instance'',
                   CallRemoveAppInstance org (inst_AppInstanceId inst)] @
              (case RemoveAppInstance sv
                      (tr3 @ [CallAddParametrizedDescriptor pd',
                              LogError ''error adding  parametrized descriptor. Delete instance''])
                      org (inst_AppInstanceId inst) of
                 None \<Rightarrow> []
               | Some rollbackErr \<Rightarrow> [LogError ''error in rollback deleting the instance'']),
            Inl err)"
proof -
  have req_ok: "checkRequiredOutbounds (desc_OutboundNetInterfaces desc) (dr_OutboundConnections req) = None"
    using connected by (rule checkConnections_None_required)
  have "Deploy L sv sched tr req =
          persistAndSchedule sv tr3 req pd' inst connections"
    using fetched filled connected parametrized created resolved req_ok
    unfolding Deploy_def org_def tr1_def tr2_def tr3_def addReq_def pd'_def Let_def
    by simp
  also have "\<dots> = (tr3 @ [CallAddParametrizedDescriptor pd',
                   LogError ''error adding  parametrized descriptor. Delete instance'',
                   CallRemoveAppInstance org (inst_AppInstanceId inst)] @
              (case RemoveAppInstance sv
                      (tr3 @ [CallAddParametrizedDescriptor pd',
                              LogError ''error adding  parametrized descriptor. Delete instance''])
                      org (inst_AppInstanceId inst) of
                 None \<Rightarrow> []
               | Some rollbackErr \<Rightarrow> [LogError ''error in rollback deleting the instance'']),
            Inl err)"
    unfolding org_def by (rule persistAndSchedule_rollback [OF persist_fails])
  finally show ?thesis .
qed


text \<open>
  C1, at a request for which both the persisting and the compensating delete fail.
\<close>

theorem Deploy_rollback_on_persist_failure_witness:
  "Deploy stubLibs
     (stubServices\<lparr>AddParametrizedDescriptor := (\<lambda>tr pd. Inl (RemoteError ''store down'')),
                   RemoveAppInstance := (\<lambda>tr org iid. Some (RemoteError ''delete failed''))\<rparr>)
     (\<lambda>l. l) []
     \<lparr>dr_OrganizationId = ''org'', dr_AppDescriptorId = ''d1'', dr_Name = ''app'',
      dr_Parameters = None, dr_OutboundConnections = []\<rparr>
   = ([CallGetAppDescriptor ''org'' ''d1'',
       CallAddAppInstance \<lparr>air_OrganizationId = ''org'', air_AppDescriptorId = ''d1'',
                           air_Name = ''app'', air_Parameters = None\<rparr>,
       CallAddParametrizedDescriptor
         ((newParametrizedDescriptorFromDescriptor exampleDescriptor)
            \<lparr>pd_AppInstanceId := ''inst-1''\<rparr>),
       LogError ''error adding  parametrized descriptor. Delete instance'',
       CallRemoveAppInstance ''org'' ''inst-1'',
       LogError ''error in rollback deleting the instance''],
      Inl (RemoteError ''store down''))"
  using Deploy_rollback_on_persist_failure [where L = stubLibs
      and sv = "stubServices\<lparr>AddParametrizedDescriptor := (\<lambda>tr pd. Inl (RemoteError ''store down'')),
                   RemoveAppInstance := (\<lambda>tr org iid. Some (RemoteError ''delete failed''))\<rparr>"
      and sched = "\<lambda>l. l" and tr = "[]"
      and req = "\<lparr>dr_OrganizationId = ''org'', dr_AppDescriptorId = ''d1'', dr_Name = ''app'',
      dr_Parameters = None, dr_OutboundConnections = []\<rparr>"
      and desc = exampleDescriptor
      and pd = "newParametrizedDescriptorFromDescriptor exampleDescriptor"
      and inst = exampleInstance and connections = "[]" and logs = "[]"
      and err = "RemoteError ''store down''"]
  by (simp add: stubServices_def stubLibs_def exampleDescriptor_def exampleInstance_def
        CreateParametrizedDescriptor_def checkConnections_def instanceList_def
        runCheckInbounds_def)

lemma resolveConnections_length:
  "resolveConnections org rules conns = Some (cs, logs) \<Longrightarrow> length cs = length conns"
  by (induction conns arbitrary: cs logs) (auto split: option.splits prod.splits if_splits)

lemma resolveConnections_entries:
  "resolveConnections org rules conns = Some (cs, logs) \<Longrightarrow>
     cs = map (\<lambda>c. case sourceInstanceNameLoop rules (cr_SourceOutboundName c) [] of
                     None \<Rightarrow> None
                   | Some n \<Rightarrow>
                       if n = [] then None
                       else Some \<lparr>ci_OrganizationId = org, ci_SourceInstanceId = [],
                                   ci_SourceInstanceName = n,
                                   ci_TargetInstanceId = cr_TargetInstanceId c,
                                   ci_InboundName = cr_TargetInboundName c,
                                   ci_OutboundName = cr_SourceOutboundName c\<rparr>) conns"
  by (induction conns arbitrary: cs logs) (auto split: option.splits prod.splits if_splits)

lemma sourceInstanceNameLoop_no_match:
  "\<forall>r \<in> set rules. \<exists>rule. r = Some rule \<and> rule_OutboundNetInterface rule \<noteq> n \<Longrightarrow>
     sourceInstanceNameLoop rules n acc = Some acc"
  by (induction rules n acc rule: sourceInstanceNameLoop.induct) auto

text \<open>
  C8. A connection whose outbound name matches no rule is not taken out of the list:
  the slice is made with one entry per requested connection, and skipping leaves the
  nil entry of that index. On the example the resolved list, and the list in the
  command that \<^verbatim>\<open>Deploy\<close> sends to the queue, is the resolved first connection followed
  by nil.
\<close>

theorem resolveConnections_leaves_nil_entry:
  "resolveConnections ''org'' [Some exampleRule]
     [\<lparr>cr_SourceOutboundName = ''out1'', cr_TargetInstanceId = ''inst-1'',
       cr_TargetInboundName = ''in1''\<rparr>,
      \<lparr>cr_SourceOutboundName = ''out7'', cr_TargetInstanceId = ''inst-1'',
       cr_TargetInboundName = ''in1''\<rparr>]
   = Some ([Some \<lparr>ci_OrganizationId = ''org'', ci_SourceInstanceId = [],
                   ci_SourceInstanceName = ''service1'', ci_TargetInstanceId = ''inst-1'',
                   ci_InboundName = ''in1'', ci_OutboundName = ''out1''\<rparr>,
            None],
           [LogError ''the connection request refers to an outbound interface name not linked to a service. Skipping.''])
   \<and> map dreq_OutboundConnections
       (concat (map (\<lambda>ev. case ev of CallSendDeploy r \<Rightarrow> [r] | _ \<Rightarrow> [])
          (fst (Deploy stubLibs stubServices (\<lambda>l. l) []
             \<lparr>dr_OrganizationId = ''org'', dr_AppDescriptorId = ''d1'', dr_Name = ''app'',
              dr_Parameters = None,
              dr_OutboundConnections =
                [\<lparr>cr_SourceOutboundName = ''out1'', cr_TargetInstanceId = ''inst-1'',
                  cr_TargetInboundName = ''in1''\<rparr>,
                 \<lparr>cr_SourceOutboundName = ''out7'', cr_TargetInstanceId = ''inst-1'',
                  cr_TargetInboundName = ''in1''\<rparr>]\<rparr>))))
     = [[Some \<lparr>ci_OrganizationId = ''org'', ci_SourceInstanceId = [],
               ci_SourceInstanceName = ''service1'', ci_TargetInstanceId = ''inst-1'',
               ci_InboundName = ''in1'', ci_OutboundName = ''out1''\<rparr>,
         None]]"
  by (simp add: exampleRule_def Deploy_def stubServices_def stubLibs_def exampleDescriptor_def
        exampleInstance_def CreateParametrizedDescriptor_def checkConnections_def
        instanceList_def runCheckInbounds_def checkInbounds_def persistAndSchedule_def
        sendDeployCommand_def newParametrizedDescriptorFromDescriptor_def Let_def)

lemma copyStorage_id: "copyStorage x = x"
  by (cases x) (simp_all add: copyStorage_def)

lemma copyEndPoint_id: "copyEndPoint x = x"
  by (cases x) (simp_all add: copyEndPoint_def)

lemma copyExposedPort_id: "copyExposedPort x = x"
  by (cases x) (simp_all add: copyExposedPort_def copyEndPoint_id map_idI)

lemma copyConfigFile_id: "copyConfigFile x = x"
  by (cases x) (simp_all add: copyConfigFile_def)

lemma copyImageCredential_id: "copyImageCredential x = x"
  by (cases x) (simp_all add: copyImageCredential_def)

lemma copyDeploySpec_id: "copyDeploySpec x = x"
  by (cases x) (simp_all add: copyDeploySpec_def)

lemma copyService_id: "copyService x = x"
  by (cases x)
     (simp_all add: copyService_def copyStorage_id copyExposedPort_id copyConfigFile_id
        copyImageCredential_id copyDeploySpec_id map_idI)

lemma copyServiceGroup_drops_specs:
  "copyServiceGroup (Some g) = Some (g\<lparr>group_Specs := None\<rparr>)"
  by (simp add: copyServiceGroup_def copyService_id map_idI)

lemma copySecurityRule_drops_names:
  "copySecurityRule (Some r) =
     Some (r\<lparr>rule_TargetServiceGroupName := [], rule_OutboundNetInterface := []\<rparr>)"
  by (simp add: copySecurityRule_def)

lemma CreateParametrizedDescriptor_no_parameters:
  "CreateParametrizedDescriptor L d None = (Some (newParametrizedDescriptorFromDescriptor d), None)"
  "CreateParametrizedDescriptor L d (Some []) = (Some (newParametrizedDescriptorFromDescriptor d), None)"
  by (simp_all add: CreateParametrizedDescriptor_def)

text \<open>
  C5. With no instance parameters the copy is returned, but it is not equal to the
  original field for field and it shares storage with it. On the example descriptor the
  copied group has lost its deployment specs (three replicas in the original), the
  copied rule has lost the name of its target group, and a write to the label map of
  the copied group is read back through the original group.
\<close>

theorem CreateParametrizedDescriptor_copy_drops_and_aliases:
  "CreateParametrizedDescriptor stubLibs exampleDescriptor None =
     (Some (newParametrizedDescriptorFromDescriptor exampleDescriptor), None)
   \<and> desc_Groups exampleDescriptor = [Some exampleGroup]
   \<and> pd_Groups (newParametrizedDescriptorFromDescriptor exampleDescriptor) =
       [Some (exampleGroup\<lparr>group_Specs := None\<rparr>)]
   \<and> group_Specs exampleGroup = Some \<lparr>sgs_Replicas = 3, sgs_MultiClusterReplica = False\<rparr>
   \<and> pd_Rules (newParametrizedDescriptorFromDescriptor exampleDescriptor) =
       [Some (exampleRule\<lparr>rule_TargetServiceGroupName := [], rule_OutboundNetInterface := []\<rparr>)]
   \<and> rule_TargetServiceGroupName exampleRule = ''g1''
   \<and> mapIndex exampleHeap (group_Labels exampleGroup) ''tier'' = ''db''
   \<and> (case pd_Groups (newParametrizedDescriptorFromDescriptor exampleDescriptor) of
         [Some g] \<Rightarrow>
           (case mapAssign exampleHeap (group_Labels g) ''tier'' ''cache'' of
              Some h' \<Rightarrow> mapIndex h' (group_Labels exampleGroup) ''tier''
            | None \<Rightarrow> ''panic'')
       | _ \<Rightarrow> ''no group'') = ''cache''"
  by (simp add: CreateParametrizedDescriptor_def newParametrizedDescriptorFromDescriptor_def
        exampleDescriptor_def exampleGroup_def exampleRule_def exampleHeap_def
        copyServiceGroup_def copySecurityRule_def mapIndex_def mapAssign_def)

lemma findParameterLoop_unknown:
  "ip_ParameterName p \<notin> param_Name ` set ps \<Longrightarrow>
     findParameterLoop ps p =
       Inl (WithParams (NewNotFoundError ''Instance parameter not found in descriptor definition'')
              [ip_ParameterName p])"
  by (induction ps) auto

lemma findParameterInDescriptor_unknown:
  "ip_ParameterName p \<notin> param_Name ` set (desc_Parameters d) \<Longrightarrow>
     findParameterInDescriptor d p =
       Inl (if desc_Parameters d = [] then
              NewInvalidArgumentError ''Instance parameter not found. Descriptor has no parameters''
            else WithParams (NewNotFoundError ''Instance parameter not found in descriptor definition'')
                   [ip_ParameterName p])"
  by (simp add: findParameterInDescriptor_def findParameterLoop_unknown)

lemma enumFindLoop_iff: "enumFindLoop vs v \<longleftrightarrow> v \<in> set vs"
  by (induction vs) auto

lemma parametersLoop_append:
  "parametersLoop L d js (pre @ rest) =
     (case parametersLoop L d js pre of
        Inl e \<Rightarrow> Inl e
      | Inr js' \<Rightarrow> parametersLoop L d js' rest)"
  by (induction pre arbitrary: js) (auto split: sum.splits)

lemma parametersLoop_fails:
  assumes "p \<in> set ps" and "\<And>js. \<exists>e. parametersLoop L d js [p] = Inl e"
  shows "\<exists>e. parametersLoop L d js ps = Inl e"
  using assms(1)
proof (induction ps arbitrary: js)
  case Nil
  then show ?case by simp
next
  case (Cons x ps)
  show ?case
  proof (cases "parametersLoop L d js [x]")
    case (Inl e)
    then show ?thesis by (auto split: sum.splits)
  next
    case (Inr js')
    with assms(2) [of js] have "x \<noteq> p" by auto
    with Cons.prems have "p \<in> set ps" by simp
    from Cons.IH [OF this, of js'] obtain e where "parametersLoop L d js' ps = Inl e" by blast
    with Inr show ?thesis by (auto split: sum.splits)
  qed
qed

lemma CreateParametrizedDescriptor_fails:
  assumes "p \<in> set ps" and "\<And>js. \<exists>e. parametersLoop L d js [p] = Inl e"
  shows "fst (CreateParametrizedDescriptor L d (Some ps)) = None \<and>
         snd (CreateParametrizedDescriptor L d (Some ps)) \<noteq> None"
proof -
  obtain x xs where ps: "ps = x # xs" using assms(1) by (cases ps) auto
  show ?thesis
  proof (cases "jsonMarshal L (newParametrizedDescriptorFromDescriptor d)")
    case (Inl err)
    then show ?thesis by (simp add: CreateParametrizedDescriptor_def ps)
  next
    case (Inr js)
    from parametersLoop_fails [OF assms, of js] obtain e where "parametersLoop L d js ps = Inl e"
      by blast
    with Inr show ?thesis by (simp add: CreateParametrizedDescriptor_def ps)
  qed
qed

lemma CreateParametrizedDescriptor_first_failure:
  assumes "jsonMarshal L (newParametrizedDescriptorFromDescriptor d) = Inr js"
    and "parametersLoop L d js pre = Inr js'"
    and "parametersLoop L d js' [p] = Inl e"
  shows "CreateParametrizedDescriptor L d (Some (pre @ p # rest)) = (None, Some e)"
proof -
  have "parametersLoop L d js' (p # rest) = Inl e"
    using assms(3) by (auto split: sum.splits)
  then have "parametersLoop L d js (pre @ p # rest) = Inl e"
    by (simp add: parametersLoop_append assms(2))
  moreover obtain x xs where "pre @ p # rest = x # xs" by (cases pre) auto
  ultimately show ?thesis
    using assms(1) by (simp add: CreateParametrizedDescriptor_def)
qed

text \<open>
  C6, amended. An instance parameter whose name no declared parameter has makes
  \<^verbatim>\<open>CreateParametrizedDescriptor\<close> return no descriptor and an error. When the
  descriptor was serialized and every instance parameter before it was found, validated
  and applied, the error is not-found with the parameter's name if the descriptor
  declares a parameter, and invalid-argument if it declares none.
\<close>

theorem CreateParametrizedDescriptor_unknown_parameter:
  assumes unknown: "ip_ParameterName p \<notin> param_Name ` set (desc_Parameters d)"
  shows
    "fst (CreateParametrizedDescriptor L d (Some (pre @ p # rest))) = None \<and>
     snd (CreateParametrizedDescriptor L d (Some (pre @ p # rest))) \<noteq> None \<and>
     (case jsonMarshal L (newParametrizedDescriptorFromDescriptor d) of
        Inl err \<Rightarrow> True
      | Inr js \<Rightarrow>
          (case parametersLoop L d js pre of
             Inl e \<Rightarrow> True
           | Inr js' \<Rightarrow>
               snd (CreateParametrizedDescriptor L d (Some (pre @ p # rest))) =
                 Some (if desc_Parameters d = [] then
                         NewInvalidArgumentError
                           ''Instance parameter not found. Descriptor has no parameters''
                       else
                         WithParams
                           (NewNotFoundError
                              ''Instance parameter not found in descriptor definition'')
                           [ip_ParameterName p])))"
proof -
  have one: "parametersLoop L d js [p] =
               Inl (if desc_Parameters d = [] then
                      NewInvalidArgumentError
                        ''Instance parameter not found. Descriptor has no parameters''
                    else
                      WithParams
                        (NewNotFoundError ''Instance parameter not found in descriptor definition'')
                        [ip_ParameterName p])" for js
    by (simp add: findParameterInDescriptor_unknown [OF unknown])
  have "fst (CreateParametrizedDescriptor L d (Some (pre @ p # rest))) = None \<and>
        snd (CreateParametrizedDescriptor L d (Some (pre @ p # rest))) \<noteq> None"
    by (rule CreateParametrizedDescriptor_fails [of p]) (auto simp: one simp del: parametersLoop.simps)
  moreover have "snd (CreateParametrizedDescriptor L d (Some (pre @ p # rest))) =
                 Some (if desc_Parameters d = [] then
                         NewInvalidArgumentError
                           ''Instance parameter not found. Descriptor has no parameters''
                       else
                         WithParams
                           (NewNotFoundError
                              ''Instance parameter not found in descriptor definition'')
                           [ip_ParameterName p])"
    if "jsonMarshal L (newParametrizedDescriptorFromDescriptor d) = Inr js"
      and "parametersLoop L d js pre = Inr js'" for js js'
    using CreateParametrizedDescriptor_first_failure [OF that one] by simp
  ultimately show ?thesis
    by (simp split: sum.splits)
qed

text \<open>
  C6 as stated fails for a descriptor that declares no parameter: the error is
  invalid-argument, not not-found.
\<close>

theorem CreateParametrizedDescriptor_undeclared_counterexample:
  "CreateParametrizedDescriptor stubLibs exampleDescriptor
     (Some [\<lparr>ip_ParameterName = ''replicas'', ip_Value = ''3''\<rparr>])
   = (None, Some \<lparr>errType = InvalidArgument,
                  message = ''Instance parameter not found. Descriptor has no parameters'',
                  parameters = []\<rparr>)"
  by (simp add: CreateParametrizedDescriptor_def stubLibs_def exampleDescriptor_def
        findParameterInDescriptor_def NewInvalidArgumentError_def)

text \<open>
  C6 amended, at a request whose second parameter is undeclared.
\<close>

theorem CreateParametrizedDescriptor_unknown_parameter_witness:
  "ip_ParameterName \<lparr>ip_ParameterName = ''replicas'', ip_Value = ''3''\<rparr>
     \<notin> param_Name ` set (desc_Parameters (exampleDescriptor\<lparr>desc_Parameters :=
          [\<lparr>param_Name = ''color'', param_Type = ParamDataType_ENUM, param_Path = ''name'',
            param_Required = False, param_EnumValues = [''red'', ''green'']\<rparr>]\<rparr>))
   \<and> CreateParametrizedDescriptor stubLibs
       (exampleDescriptor\<lparr>desc_Parameters :=
          [\<lparr>param_Name = ''color'', param_Type = ParamDataType_ENUM, param_Path = ''name'',
            param_Required = False, param_EnumValues = [''red'', ''green'']\<rparr>]\<rparr>)
       (Some [\<lparr>ip_ParameterName = ''color'', ip_Value = ''red''\<rparr>,
              \<lparr>ip_ParameterName = ''replicas'', ip_Value = ''3''\<rparr>])
     = (None, Some \<lparr>errType = NotFound,
                    message = ''Instance parameter not found in descriptor definition'',
                    parameters = [''replicas'']\<rparr>)"
  using CreateParametrizedDescriptor_unknown_parameter [where p = "\<lparr>ip_ParameterName = ''replicas'', ip_Value = ''3''\<rparr>"
      and d = "exampleDescriptor\<lparr>desc_Parameters :=
          [\<lparr>param_Name = ''color'', param_Type = ParamDataType_ENUM, param_Path = ''name'',
            param_Required = False, param_EnumValues = [''red'', ''green'']\<rparr>]\<rparr>"
      and L = stubLibs
      and pre = "[\<lparr>ip_ParameterName = ''color'', ip_Value = ''red''\<rparr>]" and rest = "[]"]
  by (simp add: CreateParametrizedDescriptor_def stubLibs_def exampleDescriptor_def
        findParameterInDescriptor_def validateInstanceParameter_def applyParameter_def
        NewNotFoundError_def WithParams_def)

text \<open>
  C7, amended. An instance parameter that resolves to an enum definition and whose
  value is not among the declared values makes \<^verbatim>\<open>CreateParametrizedDescriptor\<close> return
  no descriptor and an error. When the descriptor was serialized and every instance
  parameter before it was found, validated and applied, the error is invalid-argument
  with the name and the value of the parameter.
\<close>

theorem CreateParametrizedDescriptor_bad_enum:
  assumes found: "findParameterInDescriptor d p = Inr pdef"
    and enum: "param_Type pdef = ParamDataType_ENUM"
    and bad: "ip_Value p \<notin> set (param_EnumValues pdef)"
  shows
    "fst (CreateParametrizedDescriptor L d (Some (pre @ p # rest))) = None \<and>
     snd (CreateParametrizedDescriptor L d (Some (pre @ p # rest))) \<noteq> None \<and>
     (case jsonMarshal L (newParametrizedDescriptorFromDescriptor d) of
        Inl err \<Rightarrow> True
      | Inr js \<Rightarrow>
          (case parametersLoop L d js pre of
             Inl e \<Rightarrow> True
           | Inr js' \<Rightarrow>
               snd (CreateParametrizedDescriptor L d (Some (pre @ p # rest))) =
                 Some \<lparr>errType = InvalidArgument, message = ''Invalid parameter value'',
                       parameters = [''parameter'', ip_ParameterName p, ''value'', ip_Value p]\<rparr>))"
proof -
  have one: "parametersLoop L d js [p] =
               Inl \<lparr>errType = InvalidArgument, message = ''Invalid parameter value'',
                     parameters = [''parameter'', ip_ParameterName p, ''value'', ip_Value p]\<rparr>" for js
    using bad
    by (simp add: found validateInstanceParameter_def enum enumFindLoop_iff WithParams_def
          NewInvalidArgumentError_def)
  have "fst (CreateParametrizedDescriptor L d (Some (pre @ p # rest))) = None \<and>
        snd (CreateParametrizedDescriptor L d (Some (pre @ p # rest))) \<noteq> None"
    by (rule CreateParametrizedDescriptor_fails [of p]) (auto simp: one simp del: parametersLoop.simps)
  moreover have "snd (CreateParametrizedDescriptor L d (Some (pre @ p # rest))) =
                 Some \<lparr>errType = InvalidArgument, message = ''Invalid parameter value'',
                       parameters = [''parameter'', ip_ParameterName p, ''value'', ip_Value p]\<rparr>"
    if "jsonMarshal L (newParametrizedDescriptorFromDescriptor d) = Inr js"
      and "parametersLoop L d js pre = Inr js'" for js js'
    using CreateParametrizedDescriptor_first_failure [OF that one] by simp
  ultimately show ?thesis
    by (simp split: sum.splits)
qed

text \<open>
  C7 as stated fails when an earlier parameter of the request fails first: here an
  undeclared parameter precedes the bad enum value, and the error is not-found.
\<close>

theorem CreateParametrizedDescriptor_bad_enum_counterexample:
  "CreateParametrizedDescriptor stubLibs
       (exampleDescriptor\<lparr>desc_Parameters :=
          [\<lparr>param_Name = ''color'', param_Type = ParamDataType_ENUM, param_Path = ''name'',
            param_Required = False, param_EnumValues = [''red'', ''green'']\<rparr>]\<rparr>)
       (Some [\<lparr>ip_ParameterName = ''replicas'', ip_Value = ''3''\<rparr>,
              \<lparr>ip_ParameterName = ''color'', ip_Value = ''purple''\<rparr>])
     = (None, Some \<lparr>errType = NotFound,
                    message = ''Instance parameter not found in descriptor definition'',
                    parameters = [''replicas'']\<rparr>)"
  by (simp add: CreateParametrizedDescriptor_def stubLibs_def exampleDescriptor_def
        findParameterInDescriptor_def NewNotFoundError_def WithParams_def)

text \<open>
  C7 amended, at a request whose only parameter has a value outside the enum.
\<close>

theorem CreateParametrizedDescriptor_bad_enum_witness:
  "findParameterInDescriptor
       (exampleDescriptor\<lparr>desc_Parameters :=
          [\<lparr>param_Name = ''color'', param_Type = ParamDataType_ENUM, param_Path = ''name'',
            param_Required = False, param_EnumValues = [''red'', ''green'']\<rparr>]\<rparr>)
       \<lparr>ip_ParameterName = ''color'', ip_Value = ''purple''\<rparr>
     = Inr \<lparr>param_Name = ''color'', param_Type = ParamDataType_ENUM, param_Path = ''name'',
            param_Required = False, param_EnumValues = [''red'', ''green'']\<rparr>
   \<and> ''purple'' \<notin> set [''red'', ''green'']
   \<and> CreateParametrizedDescriptor stubLibs
       (exampleDescriptor\<lparr>desc_Parameters :=
          [\<lparr>param_Name = ''color'', param_Type = ParamDataType_ENUM, param_Path = ''name'',
            param_Required = False, param_EnumValues = [''red'', ''green'']\<rparr>]\<rparr>)
       (Some [\<lparr>ip_ParameterName = ''color'', ip_Value = ''purple''\<rparr>])
     = (None, Some \<lparr>errType = InvalidArgument, message = ''Invalid parameter value'',
                    parameters = [''parameter'', ''color'', ''value'', ''purple'']\<rparr>)"
  using CreateParametrizedDescriptor_bad_enum [where p = "\<lparr>ip_ParameterName = ''color'', ip_Value = ''purple''\<rparr>"
      and d = "exampleDescriptor\<lparr>desc_Parameters :=
          [\<lparr>param_Name = ''color'', param_Type = ParamDataType_ENUM, param_Path = ''name'',
            param_Required = False, param_EnumValues = [''red'', ''green'']\<rparr>]\<rparr>"
      and pdef = "\<lparr>param_Name = ''color'', param_Type = ParamDataType_ENUM, param_Path = ''name'',
            param_Required = False, param_EnumValues = [''red'', ''green'']\<rparr>"
      and L = stubLibs and pre = "[]" and rest = "[]"]
  by (simp add: CreateParametrizedDescriptor_def stubLibs_def exampleDescriptor_def
        findParameterInDescriptor_def validateInstanceParameter_def
        NewInvalidArgumentError_def WithParams_def)

end
